theory Spec2Isabelle
  imports Main "HOL-Library.Multiset"
begin

section \<open>The purchase-request store: data model\<close>

text \<open>
  The module under verification is \<^verbatim>\<open>database.py\<close>: the class \<^verbatim>\<open>DatabaseManager\<close>, a
  data-access layer over two PostgreSQL tables reached through a psycopg2 connection pool.
  The embedding has three layers: the rows of the two tables, the state the methods act on
  (the two attributes of the manager object together with the committed contents of the
  storage), and one HOL function per method, in the order of the source.

  Python dictionaries whose keys are fixed by the source (the request, the item and the
  filter dictionaries) are records of options, one field per key: \<open>None\<close> is an absent key,
  \<open>Some v\<close> a key bound to \<open>v\<close>. Every value is taken at the type of the column it is sent
  to. Dates and timestamps are day and tick numbers. The request number is an integer, as
  the docstring of \<^verbatim>\<open>get_max_request_number\<close> has it.

  A Python \<^verbatim>\<open>str\<close> is the list of its code points, so that one element is one character
  whatever the encoding; \<open>lit\<close> turns an ASCII literal of the source into such a list.
  Texts that only name things (dictionary keys, the texts of exceptions) stay HOL strings.
\<close>

type_synonym date = int
type_synonym timestamp = int
type_synonym str = "nat list"

definition lit :: "string \<Rightarrow> str" where
  "lit s = map of_char s"

text \<open>A row of \<^verbatim>\<open>purchase_requests\<close>; the fields are the columns, named as the alias
  \<^verbatim>\<open>pr\<close> of the source's queries names them. \<open>pr_deleted_at = None\<close> is SQL NULL: an active row.\<close>

record request_row =
  pr_id :: int
  pr_request_number :: int
  pr_request_date_jalali :: str
  pr_request_date_gregorian :: date
  pr_requesting_unit :: str
  pr_requester_name :: str
  pr_pdf_file_path :: str
  pr_year :: int
  pr_month :: int
  pr_month_name :: str
  pr_status :: str
  pr_deleted_at :: "timestamp option"

text \<open>A row of \<^verbatim>\<open>request_items\<close> (alias \<^verbatim>\<open>ri\<close>).\<close>

record item_row =
  ri_id :: int
  ri_request_id :: int
  ri_row_number :: int
  ri_description :: str
  ri_quantity :: int
  ri_unit :: str
  ri_purchase_location :: str
  ri_notes :: str

text \<open>The dictionary \<^verbatim>\<open>request_data\<close> of \<^verbatim>\<open>save_request\<close>.\<close>

record request_data =
  rd_request_number :: "int option"
  rd_request_date_jalali :: "str option"
  rd_request_date_gregorian :: "date option"
  rd_requesting_unit :: "str option"
  rd_requester_name :: "str option"
  rd_pdf_file_path :: "str option"
  rd_year :: "int option"
  rd_month :: "int option"
  rd_month_name :: "str option"
  rd_status :: "str option"

text \<open>One element of the list \<^verbatim>\<open>items_data\<close>.\<close>

record item_data =
  it_row_number :: "int option"
  it_description :: "str option"
  it_quantity :: "int option"
  it_unit :: "str option"
  it_purchase_location :: "str option"
  it_notes :: "str option"

text \<open>The dictionary \<^verbatim>\<open>filters\<close> of \<^verbatim>\<open>search_requests\<close>.\<close>

record filters =
  f_request_number :: "int option"
  f_requester_name :: "str option"
  f_requesting_unit :: "str option"
  f_year :: "int option"
  f_month :: "int option"
  f_status :: "str option"
  f_date_from :: "date option"
  f_date_to :: "date option"

subsection \<open>Exceptions and messages\<close>

text \<open>
  The exceptions the methods meet. \<open>DbError\<close> is \<^verbatim>\<open>psycopg2.Error\<close> with its subclasses
  (the pool's \<^verbatim>\<open>PoolError\<close> and the connection's \<^verbatim>\<open>InterfaceError\<close> are two), the only class
  the handlers written \<^verbatim>\<open>except Error\<close> catch; \<open>KeyError\<close> carries the missing key;
  \<open>ValueError\<close> and \<open>AttributeError\<close> carry their text.
\<close>

datatype exception =
  DbError string | KeyError string | ValueError string | AttributeError string

text \<open>\<^verbatim>\<open>str(e)\<close>: the text of a database or attribute error, the \<^verbatim>\<open>repr\<close> of the key of a \<open>KeyError\<close>.\<close>

fun str_exc :: "exception \<Rightarrow> string" where
  "str_exc (DbError m) = m"
| "str_exc (KeyError k) = [CHR 0x27] @ k @ [CHR 0x27]"
| "str_exc (ValueError m) = m"
| "str_exc (AttributeError m) = m"

text \<open>
  The messages of the source are Persian literals and f-strings over them. Each literal is a
  constructor; an f-string keeps its interpolated text as the argument.
  \<^item> \<open>NotConnected\<close>: the literal returned where \<^verbatim>\<open>self.is_connected\<close> is false (lines 121, 284, 539);
  \<^item> \<open>ItemsNotConnected\<close>: the literal of line 382;
  \<^item> \<open>GetConnectionFailed\<close>: the literal returned where \<^verbatim>\<open>get_connection\<close> gave \<^verbatim>\<open>None\<close>;
  \<^item> \<open>SaveFailed e\<close>: the f-string of line 183;
  \<^item> \<open>InvalidStatus vs\<close>: the f-string of line 341, \<open>vs\<close> the joined valid values;
  \<^item> \<open>RequestNotFound\<close>: the literal of line 355;
  \<^item> \<open>StatusChangeFailed e\<close>: the f-string of line 365;
  \<^item> \<open>NotFoundOrNotDeleted\<close>: the literal of line 559;
  \<^item> \<open>RestoreFailed e\<close>: the f-string of line 569;
  \<^item> \<open>Plain e\<close>: \<^verbatim>\<open>str(e)\<close> alone (line 446).
\<close>

datatype message =
    NotConnected
  | ItemsNotConnected
  | GetConnectionFailed
  | SaveFailed string
  | InvalidStatus str
  | RequestNotFound
  | StatusChangeFailed string
  | NotFoundOrNotDeleted
  | RestoreFailed string
  | Plain string

subsection \<open>The manager and the storage\<close>

text \<open>
  \<^verbatim>\<open>psycopg2.pool.SimpleConnectionPool\<close>, as far as the methods observe it: whether
  \<^verbatim>\<open>closeall\<close> has been called, and how many \<^verbatim>\<open>getconn\<close> calls it has served (its key counter).
\<close>

record pool =
  closed :: bool
  served :: nat

text \<open>
  The state: the attributes \<^verbatim>\<open>connection_pool\<close> (\<open>None\<close> as in Python) and \<^verbatim>\<open>is_connected\<close>
  of the manager, and the storage: whether the server accepts connections and executes
  statements, the committed rows of the two tables in storage order, and the two id
  sequences. Where the server does not, the pool cannot be built, a statement sent on a
  connection handed out earlier raises a database error, and that connection is closed:
  a rollback on it raises in its turn.
\<close>

record state =
  connection_pool :: "pool option"
  is_connected :: bool
  server_up :: bool
  purchase_requests :: "request_row list"
  request_items :: "item_row list"
  purchase_requests_id_seq :: int
  request_items_id_seq :: int

text \<open>
  A connection handed out by the pool carries the tables as its open transaction sees them.
  Statements act on this view; only \<open>commit\<close> writes it to the state.
\<close>

record connection =
  view_requests :: "request_row list"
  view_items :: "item_row list"

text \<open>
  The table definitions are not part of the module, so the constraints the storage checks on
  an inserted row are parameters: each rule receives the rows the transaction sees and the
  new row, and answers \<open>Some m\<close> when the storage rejects the row with error text \<open>m\<close>.
\<close>

record rules =
  request_rule :: "request_row list \<Rightarrow> request_row \<Rightarrow> string option"
  item_rule :: "item_row list \<Rightarrow> item_row \<Rightarrow> string option"

definition no_rules :: rules where
  "no_rules = \<lparr>request_rule = (\<lambda>_ _. None), item_rule = (\<lambda>_ _. None)\<rparr>"

text \<open>The text of the error of a statement the server does not execute.\<close>

definition not_executed :: string where
  "not_executed = ''the server did not execute the statement''"

definition pool_is_closed :: string where
  "pool_is_closed = ''connection pool is closed''"

text \<open>The text of the \<^verbatim>\<open>InterfaceError\<close> a closed connection raises.\<close>

definition connection_closed :: string where
  "connection_closed = ''connection already closed''"

text \<open>The text of the \<^verbatim>\<open>ValueError\<close> of the driver for a text parameter that holds NUL.\<close>

definition nul_refused :: string where
  "nul_refused = ''A string literal cannot contain NUL (0x00) characters.''"

definition none_has_no_getconn :: string where
  "none_has_no_getconn =
     [CHR 0x27] @ ''NoneType'' @ [CHR 0x27] @ '' object has no attribute '' @
     [CHR 0x27] @ ''getconn'' @ [CHR 0x27]"

section \<open>Connection pool manager\<close>

text \<open>
  \<^verbatim>\<open>_initialize_pool\<close>, run by \<^verbatim>\<open>__init__\<close> after it has set \<^verbatim>\<open>connection_pool = None\<close> and
  \<^verbatim>\<open>is_connected = False\<close>. The pool's constructor opens its first connection at once and
  raises \<^verbatim>\<open>Error\<close> when the server accepts no connection.
\<close>

definition new_pool :: pool where
  "new_pool = \<lparr>closed = False, served = 0\<rparr>"

definition initialize_pool :: "state \<Rightarrow> bool option \<times> state" where
  "initialize_pool st =
     (if server_up st
      then (Some True, st\<lparr>connection_pool := Some new_pool, is_connected := True\<rparr>)
      else (Some False, st\<lparr>is_connected := False\<rparr>))"

text \<open>\<^verbatim>\<open>__init__\<close> over a storage: the storage part of the argument is kept.\<close>

definition init :: "state \<Rightarrow> state" where
  "init st = snd (initialize_pool (st\<lparr>connection_pool := None, is_connected := False\<rparr>))"

text \<open>
  \<^verbatim>\<open>pool.getconn()\<close>: raises \<^verbatim>\<open>PoolError\<close> on a closed pool; otherwise the pool counts the
  call and hands out a connection, whose transaction starts from the committed rows.
\<close>

definition snapshot :: "state \<Rightarrow> connection" where
  "snapshot st = \<lparr>view_requests = purchase_requests st, view_items = request_items st\<rparr>"

definition serve :: "state \<Rightarrow> pool \<Rightarrow> state" where
  "serve st p = st\<lparr>connection_pool := Some (p\<lparr>served := Suc (served p)\<rparr>)\<rparr>"

definition getconn :: "state \<Rightarrow> pool \<Rightarrow> exception + (connection \<times> state)" where
  "getconn st p =
     (if closed p then Inl (DbError pool_is_closed) else Inr (snapshot st, serve st p))"

text \<open>\<^verbatim>\<open>self.connection_pool.getconn()\<close> written without a guard, as lines 343 and 386 have it.\<close>

definition pool_getconn :: "state \<Rightarrow> exception + (connection \<times> state)" where
  "pool_getconn st =
     (case connection_pool st of
        None \<Rightarrow> Inl (AttributeError none_has_no_getconn)
      | Some p \<Rightarrow> getconn st p)"

definition get_connection :: "state \<Rightarrow> connection option \<times> state" where
  "get_connection st =
     (case connection_pool st of
        None \<Rightarrow> (None, st)
      | Some p \<Rightarrow>
          (case getconn st p of
             Inl e \<Rightarrow> (None, st)
           | Inr (c, st') \<Rightarrow> (Some c, st')))"

text \<open>
  \<^verbatim>\<open>return_connection\<close>. The pool's \<^verbatim>\<open>putconn\<close> rolls back a connection that is still inside
  a transaction (or closes one whose server is lost), so the view is dropped and the state
  keeps the committed rows.
\<close>

definition return_connection :: "state \<Rightarrow> connection option \<Rightarrow> state" where
  "return_connection st c = st"

definition close_all_connections :: "state \<Rightarrow> state" where
  "close_all_connections st =
     (case connection_pool st of
        None \<Rightarrow> st
      | Some p \<Rightarrow> st\<lparr>connection_pool := Some (p\<lparr>closed := True\<rparr>)\<rparr>)"

text \<open>
  \<^verbatim>\<open>connection.commit()\<close>, reached only after every statement of the transaction was executed,
  writes the view. \<^verbatim>\<open>connection.rollback()\<close> drops it; on a connection the lost server has
  closed it raises \<^verbatim>\<open>InterfaceError\<close> instead.
\<close>

definition commit :: "state \<Rightarrow> connection \<Rightarrow> state" where
  "commit st c = st\<lparr>purchase_requests := view_requests c, request_items := view_items c\<rparr>"

definition rollback :: "state \<Rightarrow> connection \<Rightarrow> exception + state" where
  "rollback st c = (if server_up st then Inr st else Inl (DbError connection_closed))"

text \<open>
  \<^verbatim>\<open>cursor.execute\<close> first adapts the parameters: the driver refuses a text that holds the
  character NUL with \<^verbatim>\<open>ValueError\<close>, which is no \<^verbatim>\<open>psycopg2.Error\<close>. Then the statement is
  sent: one the server does not execute raises a database error.
\<close>

definition nul_free :: "str \<Rightarrow> bool" where
  "nul_free s = (0 \<notin> set s)"

definition adapt :: "str list \<Rightarrow> exception + unit" where
  "adapt params =
     (if list_all nul_free params then Inr () else Inl (ValueError nul_refused))"

definition send :: "state \<Rightarrow> exception + unit" where
  "send st = (if server_up st then Inr () else Inl (DbError not_executed))"

section \<open>Python and SQL helpers\<close>

text \<open>\<^verbatim>\<open>d[k]\<close> on a dictionary field: an absent key raises \<^verbatim>\<open>KeyError(k)\<close>.\<close>

definition subscript :: "string \<Rightarrow> 'a option \<Rightarrow> exception + 'a" where
  "subscript k v = (case v of None \<Rightarrow> Inl (KeyError k) | Some x \<Rightarrow> Inr x)"

text \<open>\<^verbatim>\<open>d.get(k, default)\<close>.\<close>

definition get_default :: "'a option \<Rightarrow> 'a \<Rightarrow> 'a" where
  "get_default v d = (case v of None \<Rightarrow> d | Some x \<Rightarrow> x)"

text \<open>Evaluation in sequence: the first exception raised ends it.\<close>

fun bind :: "exception + 'a \<Rightarrow> ('a \<Rightarrow> exception + 'b) \<Rightarrow> exception + 'b" where
  "bind (Inl e) f = Inl e"
| "bind (Inr x) f = f x"

text \<open>\<^verbatim>\<open>sep.join(xs)\<close>.\<close>

fun join :: "str \<Rightarrow> str list \<Rightarrow> str" where
  "join sep [] = []"
| "join sep [x] = x"
| "join sep (x # y # ys) = x @ sep @ join sep (y # ys)"

text \<open>\<^verbatim>\<open>cursor.fetchone()\<close> on the rows a statement returned.\<close>

definition fetchone :: "'a list \<Rightarrow> 'a option" where
  "fetchone rows = (case rows of [] \<Rightarrow> None | r # _ \<Rightarrow> Some r)"

text \<open>
  \<^verbatim>\<open>cursor.execute\<close> of a statement with the text parameters \<open>params\<close> (numbers and dates are
  always adapted) whose result on the transaction's view is \<open>res\<close>.
\<close>

definition execute :: "state \<Rightarrow> str list \<Rightarrow> 'a \<Rightarrow> exception + 'a" where
  "execute st params res = bind (adapt params) (\<lambda>_. bind (send st) (\<lambda>_. Inr res))"

text \<open>Python truthiness of a number and of a string.\<close>

definition truthy_int :: "int \<Rightarrow> bool" where
  "truthy_int n = (n \<noteq> 0)"

definition truthy_str :: "str \<Rightarrow> bool" where
  "truthy_str s = (s \<noteq> [])"

text \<open>The three characters \<^verbatim>\<open>LIKE\<close> reads as operators: percent sign, underscore, backslash.\<close>

definition percent :: nat where
  "percent = 37"

definition underscore :: nat where
  "underscore = 95"

definition backslash :: nat where
  "backslash = 92"

text \<open>
  SQL \<^verbatim>\<open>LIKE\<close>, pattern first: the percent sign matches any run of characters, the
  underscore any one character, a backslash makes the next pattern character literal, any
  other character matches itself. A pattern that ends in a lone backslash is refused by the
  storage; the patterns built below end in a percent sign, and the model lets such a
  pattern match nothing.
\<close>

fun like :: "str \<Rightarrow> str \<Rightarrow> bool" where
  "like [] [] = True"
| "like [] (c # t) = False"
| "like (p # ps) [] = (p = percent \<and> like ps [])"
| "like (p # ps) (c # t) =
     (if p = percent then like ps (c # t) \<or> like (p # ps) t
      else if p = underscore then like ps t
      else if p = backslash then
        (case ps of [] \<Rightarrow> False | q # qs \<Rightarrow> c = q \<and> like qs t)
      else c = p \<and> like ps t)"

text \<open>
  \<^verbatim>\<open>ILIKE\<close> compares after lowering both sides character by character. Which characters
  have a lower-case form is decided by the locale of the server, which is not part of the
  module: the lowering is the parameter \<open>lower\<close>.
\<close>

definition ilike :: "(nat \<Rightarrow> nat) \<Rightarrow> str \<Rightarrow> str \<Rightarrow> bool" where
  "ilike lower pat s = like (map lower pat) (map lower s)"

text \<open>The f-string \<^verbatim>\<open>f"%{text}%"\<close>.\<close>

definition search_pattern :: "str \<Rightarrow> str" where
  "search_pattern text = percent # text @ [percent]"

section \<open>Transactional writer\<close>

text \<open>The default purchase location: the source's literal, the five letters of the city name.\<close>

definition tehran :: str where
  "tehran = [0x62A, 0x647, 0x631, 0x627, 0x646]"

text \<open>
  The parameter tuple of lines 143 to 154, evaluated left to right. The id and the
  soft-delete timestamp are not among the parameters; the row carries placeholders for them
  until the storage assigns them.
\<close>

definition request_tuple :: "request_data \<Rightarrow> exception + request_row" where
  "request_tuple d =
     bind (subscript ''request_number'' (rd_request_number d)) (\<lambda>number.
     bind (subscript ''request_date_jalali'' (rd_request_date_jalali d)) (\<lambda>jalali.
     bind (subscript ''request_date_gregorian'' (rd_request_date_gregorian d)) (\<lambda>gregorian.
     bind (subscript ''requesting_unit'' (rd_requesting_unit d)) (\<lambda>unit.
     bind (subscript ''requester_name'' (rd_requester_name d)) (\<lambda>name.
     bind (subscript ''pdf_file_path'' (rd_pdf_file_path d)) (\<lambda>path.
     bind (subscript ''year'' (rd_year d)) (\<lambda>y.
     bind (subscript ''month'' (rd_month d)) (\<lambda>m.
     bind (subscript ''month_name'' (rd_month_name d)) (\<lambda>mname.
     Inr \<lparr>pr_id = 0, pr_request_number = number, pr_request_date_jalali = jalali,
          pr_request_date_gregorian = gregorian, pr_requesting_unit = unit,
          pr_requester_name = name, pr_pdf_file_path = path, pr_year = y, pr_month = m,
          pr_month_name = mname, pr_status = get_default (rd_status d) (lit ''pending''),
          pr_deleted_at = None\<rparr>)))))))))"

text \<open>One tuple of the comprehension of lines 166 to 170.\<close>

definition item_tuple :: "int \<Rightarrow> item_data \<Rightarrow> exception + item_row" where
  "item_tuple request_id item =
     bind (subscript ''row_number'' (it_row_number item)) (\<lambda>row_number.
     bind (subscript ''description'' (it_description item)) (\<lambda>description.
     bind (subscript ''quantity'' (it_quantity item)) (\<lambda>quantity.
     bind (subscript ''unit'' (it_unit item)) (\<lambda>unit.
     bind (subscript ''notes'' (it_notes item)) (\<lambda>notes.
     Inr \<lparr>ri_id = 0, ri_request_id = request_id, ri_row_number = row_number,
          ri_description = description, ri_quantity = quantity, ri_unit = unit,
          ri_purchase_location = get_default (it_purchase_location item) tehran,
          ri_notes = notes\<rparr>)))))"

fun items_to_insert :: "int \<Rightarrow> item_data list \<Rightarrow> exception + item_row list" where
  "items_to_insert request_id [] = Inr []"
| "items_to_insert request_id (item # items_data) =
     bind (item_tuple request_id item) (\<lambda>row.
     bind (items_to_insert request_id items_data) (\<lambda>rows. Inr (row # rows)))"

text \<open>
  The text parameters of the two insert statements, in the order of their tuples.
\<close>

definition request_texts :: "request_row \<Rightarrow> str list" where
  "request_texts r =
     [pr_request_date_jalali r, pr_requesting_unit r, pr_requester_name r, pr_pdf_file_path r,
      pr_month_name r, pr_status r]"

definition item_texts :: "item_row \<Rightarrow> str list" where
  "item_texts r = [ri_description r, ri_unit r, ri_purchase_location r, ri_notes r]"

text \<open>
  \<^verbatim>\<open>INSERT INTO purchase_requests ... RETURNING id\<close>. The id is drawn from the sequence,
  which does not take part in the transaction: a rejected or rolled-back insert has used
  its number. The new row is active.
\<close>

definition insert_request ::
  "rules \<Rightarrow> state \<Rightarrow> connection \<Rightarrow> request_row \<Rightarrow> (exception + (int \<times> connection)) \<times> state" where
  "insert_request R st c row =
     (case execute st (request_texts row) () of
        Inl e \<Rightarrow> (Inl e, st)
      | Inr _ \<Rightarrow>
          (let i = purchase_requests_id_seq st;
               st' = st\<lparr>purchase_requests_id_seq := i + 1\<rparr>;
               r = row\<lparr>pr_id := i, pr_deleted_at := None\<rparr>
           in case request_rule R (view_requests c) r of
                Some m \<Rightarrow> (Inl (DbError m), st')
              | None \<Rightarrow> (Inr (i, c\<lparr>view_requests := view_requests c @ [r]\<rparr>), st')))"

definition insert_item ::
  "rules \<Rightarrow> state \<Rightarrow> connection \<Rightarrow> item_row \<Rightarrow> (exception + connection) \<times> state" where
  "insert_item R st c row =
     (case execute st (item_texts row) () of
        Inl e \<Rightarrow> (Inl e, st)
      | Inr _ \<Rightarrow>
          (let i = request_items_id_seq st;
               st' = st\<lparr>request_items_id_seq := i + 1\<rparr>;
               r = row\<lparr>ri_id := i\<rparr>
           in case item_rule R (view_items c) r of
                Some m \<Rightarrow> (Inl (DbError m), st')
              | None \<Rightarrow> (Inr (c\<lparr>view_items := view_items c @ [r]\<rparr>), st')))"

text \<open>\<^verbatim>\<open>cursor.executemany\<close>: the statement once per tuple, in order, until one is refused.\<close>

fun executemany ::
  "rules \<Rightarrow> state \<Rightarrow> connection \<Rightarrow> item_row list \<Rightarrow> (exception + connection) \<times> state" where
  "executemany R st c [] = (Inr c, st)"
| "executemany R st c (row # rows) =
     (case insert_item R st c row of
        (Inl e, st') \<Rightarrow> (Inl e, st')
      | (Inr c', st') \<Rightarrow> executemany R st' c' rows)"

text \<open>The \<^verbatim>\<open>try\<close> block of \<^verbatim>\<open>save_request\<close>: the id it returns with, or the exception it raises.\<close>

definition save_request_try ::
  "rules \<Rightarrow> state \<Rightarrow> connection \<Rightarrow> request_data \<Rightarrow> item_data list \<Rightarrow> (exception + int) \<times> state" where
  "save_request_try R st c request_data items_data =
     (case request_tuple request_data of
        Inl e \<Rightarrow> (Inl e, st)
      | Inr row \<Rightarrow>
          (case insert_request R st c row of
             (Inl e, st1) \<Rightarrow> (Inl e, st1)
           | (Inr (request_id, c1), st1) \<Rightarrow>
               (if items_data \<noteq> [] then
                  (case items_to_insert request_id items_data of
                     Inl e \<Rightarrow> (Inl e, st1)
                   | Inr rows \<Rightarrow>
                       (case executemany R st1 c1 rows of
                          (Inl e, st2) \<Rightarrow> (Inl e, st2)
                        | (Inr c2, st2) \<Rightarrow> (Inr request_id, commit st2 c2)))
                else (Inr request_id, commit st1 c1))))"

text \<open>
  \<^verbatim>\<open>save_request\<close>. The result is the triple the method returns, or the exception that leaves
  it. The handler is \<^verbatim>\<open>except Error\<close>: only a \<open>DbError\<close> enters it, and the handler rolls back
  before it builds the failure triple, so an exception of the rollback leaves the method
  too. The \<^verbatim>\<open>finally\<close> clause returns the connection on every path.
\<close>

type_synonym save_result = "bool \<times> int option \<times> message option"

definition save_request ::
  "rules \<Rightarrow> state \<Rightarrow> request_data \<Rightarrow> item_data list \<Rightarrow> (exception + save_result) \<times> state" where
  "save_request R st request_data items_data =
     (if \<not> is_connected st then (Inr (False, None, Some NotConnected), st)
      else
        (case get_connection st of
           (None, st0) \<Rightarrow> (Inr (False, None, Some GetConnectionFailed), st0)
         | (Some c, st0) \<Rightarrow>
             (case save_request_try R st0 c request_data items_data of
                (Inr request_id, st1) \<Rightarrow>
                  (Inr (True, Some request_id, None), return_connection st1 (Some c))
              | (Inl (DbError m), st1) \<Rightarrow>
                  (case rollback st1 c of
                     Inl e \<Rightarrow> (Inl e, return_connection st1 (Some c))
                   | Inr st2 \<Rightarrow>
                       (Inr (False, None, Some (SaveFailed m)), return_connection st2 (Some c)))
              | (Inl e, st1) \<Rightarrow> (Inl e, return_connection st1 (Some c)))))"

section \<open>Point lookups\<close>

text \<open>
  The statements of the reading methods below take numbers only, so that nothing but a
  database error is raised in them, and their handlers \<^verbatim>\<open>except Error\<close> catch it.

  \<^verbatim>\<open>get_request_by_id\<close>: \<open>None\<close>, or the request with its items in \<^verbatim>\<open>row_number\<close> order
  (the dictionary with the keys \<^verbatim>\<open>request\<close> and \<^verbatim>\<open>items\<close>).
\<close>

definition get_request_by_id :: "state \<Rightarrow> int \<Rightarrow> (request_row \<times> item_row list) option \<times> state" where
  "get_request_by_id st request_id =
     (if \<not> is_connected st then (None, st)
      else
        (case get_connection st of
           (None, st0) \<Rightarrow> (None, st0)
         | (Some c, st0) \<Rightarrow>
             (case execute st0 [] (filter (\<lambda>r. pr_id r = request_id) (view_requests c)) of
                Inl e \<Rightarrow> (None, return_connection st0 (Some c))
              | Inr rows \<Rightarrow>
                  (case fetchone rows of
                     None \<Rightarrow> (None, return_connection st0 (Some c))
                   | Some request \<Rightarrow>
                       (case execute st0 []
                               (sort_key ri_row_number
                                  (filter (\<lambda>i. ri_request_id i = request_id) (view_items c))) of
                          Inl e \<Rightarrow> (None, return_connection st0 (Some c))
                        | Inr items \<Rightarrow>
                            (Some (request, items), return_connection st0 (Some c)))))))"

definition get_request_by_number :: "state \<Rightarrow> int \<Rightarrow> request_row option \<times> state" where
  "get_request_by_number st request_number =
     (if \<not> is_connected st then (None, st)
      else
        (case get_connection st of
           (None, st0) \<Rightarrow> (None, st0)
         | (Some c, st0) \<Rightarrow>
             (case execute st0 []
                     (filter (\<lambda>r. pr_request_number r = request_number) (view_requests c)) of
                Inl e \<Rightarrow> (None, return_connection st0 (Some c))
              | Inr rows \<Rightarrow> (fetchone rows, return_connection st0 (Some c)))))"

section \<open>Connection test and status transition\<close>

definition test_connection :: "state \<Rightarrow> bool \<times> state" where
  "test_connection st =
     (case get_connection st of
        (None, st0) \<Rightarrow> (False, st0)
      | (Some c, st0) \<Rightarrow>
          (case execute st0 [] () of
             Inl e \<Rightarrow> (False, return_connection st0 (Some c))
           | Inr _ \<Rightarrow> (True, return_connection st0 (Some c))))"

definition valid_statuses :: "str list" where
  "valid_statuses = [lit ''pending'', lit ''approved'', lit ''rejected'', lit ''completed'']"

text \<open>
  \<^verbatim>\<open>UPDATE purchase_requests SET status = %s WHERE id = %s RETURNING request_number\<close>: the
  returned numbers and the view after the update.
\<close>

definition update_status_stmt :: "connection \<Rightarrow> str \<Rightarrow> int \<Rightarrow> int list \<times> connection" where
  "update_status_stmt c new_status request_id =
     (map pr_request_number (filter (\<lambda>r. pr_id r = request_id) (view_requests c)),
      c\<lparr>view_requests :=
           map (\<lambda>r. if pr_id r = request_id then r\<lparr>pr_status := new_status\<rparr> else r)
             (view_requests c)\<rparr>)"

text \<open>
  \<^verbatim>\<open>update_request_status\<close>. It does not read \<^verbatim>\<open>is_connected\<close> and calls
  \<^verbatim>\<open>self.connection_pool.getconn()\<close> itself. Its handler is \<^verbatim>\<open>except Exception\<close>, so nothing
  leaves the \<^verbatim>\<open>try\<close> block; but the handler rolls back where \<^verbatim>\<open>conn\<close> is set, and an exception
  of the rollback leaves the method. Where \<^verbatim>\<open>getconn\<close> raised, \<^verbatim>\<open>conn\<close> is still \<^verbatim>\<open>None\<close> and
  nothing is rolled back or returned.
\<close>

definition update_request_status ::
  "state \<Rightarrow> int \<Rightarrow> str \<Rightarrow> (exception + (bool \<times> message option)) \<times> state" where
  "update_request_status st request_id new_status =
     (if new_status \<notin> set valid_statuses
      then (Inr (False, Some (InvalidStatus (join (lit '', '') valid_statuses))), st)
      else
        (case pool_getconn st of
           Inl e \<Rightarrow> (Inr (False, Some (StatusChangeFailed (str_exc e))), st)
         | Inr (conn, st0) \<Rightarrow>
             (case execute st0 [new_status] (update_status_stmt conn new_status request_id) of
                Inl e \<Rightarrow>
                  (case rollback st0 conn of
                     Inl e' \<Rightarrow> (Inl e', return_connection st0 (Some conn))
                   | Inr st1 \<Rightarrow>
                       (Inr (False, Some (StatusChangeFailed (str_exc e))),
                        return_connection st1 (Some conn)))
              | Inr (returned, conn') \<Rightarrow>
                  (case fetchone returned of
                     None \<Rightarrow>
                       (Inr (False, Some RequestNotFound), return_connection st0 (Some conn'))
                   | Some result \<Rightarrow>
                       (Inr (True, None), return_connection (commit st0 conn') (Some conn'))))))"

section \<open>Search in items\<close>

text \<open>A row of the result of \<^verbatim>\<open>search_in_items\<close>: the eleven selected columns.\<close>

record item_hit =
  h_id :: int
  h_request_number :: int
  h_request_date_jalali :: str
  h_request_date_gregorian :: date
  h_requesting_unit :: str
  h_requester_name :: str
  h_pdf_file_path :: str
  h_status :: str
  h_matched_description :: str
  h_matched_notes :: str
  h_row_number :: int

definition item_hit :: "request_row \<Rightarrow> item_row \<Rightarrow> item_hit" where
  "item_hit r i =
     \<lparr>h_id = pr_id r, h_request_number = pr_request_number r,
      h_request_date_jalali = pr_request_date_jalali r,
      h_request_date_gregorian = pr_request_date_gregorian r,
      h_requesting_unit = pr_requesting_unit r, h_requester_name = pr_requester_name r,
      h_pdf_file_path = pr_pdf_file_path r, h_status = pr_status r,
      h_matched_description = ri_description i, h_matched_notes = ri_notes i,
      h_row_number = ri_row_number i\<rparr>"

text \<open>
  The query of lines 390 to 407: inner join, the two \<^verbatim>\<open>ILIKE\<close> tests, \<^verbatim>\<open>DISTINCT\<close>, then the
  order by date descending and row number. There is no test of \<^verbatim>\<open>deleted_at\<close> in it.
\<close>

definition items_query :: "(nat \<Rightarrow> nat) \<Rightarrow> connection \<Rightarrow> str \<Rightarrow> item_hit list" where
  "items_query lower c pat =
     sort_key (\<lambda>h. - h_request_date_gregorian h)
       (sort_key h_row_number
          (remdups
             (concat
                (map (\<lambda>r. map (item_hit r)
                            (filter (\<lambda>i. pr_id r = ri_request_id i \<and>
                                          (ilike lower pat (ri_description i) \<or>
                                           ilike lower pat (ri_notes i)))
                               (view_items c)))
                   (view_requests c)))))"

text \<open>
  \<^verbatim>\<open>search_in_items\<close>: the handler is \<^verbatim>\<open>except Exception\<close> and does not roll back, so every
  exception of the \<^verbatim>\<open>try\<close> block becomes the pair of \<^verbatim>\<open>None\<close> and its text.
\<close>

definition search_in_items ::
  "(nat \<Rightarrow> nat) \<Rightarrow> state \<Rightarrow> str \<Rightarrow> (item_hit list option \<times> message option) \<times> state" where
  "search_in_items lower st search_text =
     (if \<not> is_connected st then ((None, Some ItemsNotConnected), st)
      else
        (case pool_getconn st of
           Inl e \<Rightarrow> ((None, Some (Plain (str_exc e))), st)
         | Inr (conn, st0) \<Rightarrow>
             (case execute st0 [search_pattern search_text, search_pattern search_text]
                     (items_query lower conn (search_pattern search_text)) of
                Inl e \<Rightarrow> ((None, Some (Plain (str_exc e))), return_connection st0 (Some conn))
              | Inr results \<Rightarrow> ((Some results, None), return_connection st0 (Some conn)))))"

section \<open>Duplicate check and restore\<close>

text \<open>The six columns \<^verbatim>\<open>check_duplicate_request_number\<close> selects.\<close>

record existing_request =
  e_id :: int
  e_request_number :: int
  e_request_date_jalali :: str
  e_requesting_unit :: str
  e_requester_name :: str
  e_status :: str

definition existing_request :: "request_row \<Rightarrow> existing_request" where
  "existing_request r =
     \<lparr>e_id = pr_id r, e_request_number = pr_request_number r,
      e_request_date_jalali = pr_request_date_jalali r,
      e_requesting_unit = pr_requesting_unit r, e_requester_name = pr_requester_name r,
      e_status = pr_status r\<rparr>"

definition check_duplicate_request_number ::
  "state \<Rightarrow> int \<Rightarrow> (bool \<times> existing_request option) \<times> state" where
  "check_duplicate_request_number st request_number =
     (if \<not> is_connected st then ((False, None), st)
      else
        (case get_connection st of
           (None, st0) \<Rightarrow> ((False, None), st0)
         | (Some c, st0) \<Rightarrow>
             (case execute st0 []
                     (map existing_request
                        (filter (\<lambda>r. pr_request_number r = request_number \<and> pr_deleted_at r = None)
                           (view_requests c))) of
                Inl e \<Rightarrow> ((False, None), return_connection st0 (Some c))
              | Inr rows \<Rightarrow>
                  (case fetchone rows of
                     Some result \<Rightarrow> ((True, Some result), return_connection st0 (Some c))
                   | None \<Rightarrow> ((False, None), return_connection st0 (Some c))))))"

text \<open>
  \<^verbatim>\<open>UPDATE purchase_requests SET deleted_at = NULL WHERE id = %s AND deleted_at IS NOT NULL
  RETURNING request_number\<close>.
\<close>

definition restore_stmt :: "connection \<Rightarrow> int \<Rightarrow> int list \<times> connection" where
  "restore_stmt c request_id =
     (map pr_request_number
        (filter (\<lambda>r. pr_id r = request_id \<and> pr_deleted_at r \<noteq> None) (view_requests c)),
      c\<lparr>view_requests :=
           map (\<lambda>r. if pr_id r = request_id \<and> pr_deleted_at r \<noteq> None
                    then r\<lparr>pr_deleted_at := None\<rparr> else r)
             (view_requests c)\<rparr>)"

text \<open>
  \<^verbatim>\<open>restore_request\<close>: the handler \<^verbatim>\<open>except Error\<close> rolls back before it builds its failure,
  so an exception of the rollback leaves the method.
\<close>

definition restore_request ::
  "state \<Rightarrow> int \<Rightarrow> (exception + (bool \<times> message option)) \<times> state" where
  "restore_request st request_id =
     (if \<not> is_connected st then (Inr (False, Some NotConnected), st)
      else
        (case get_connection st of
           (None, st0) \<Rightarrow> (Inr (False, Some GetConnectionFailed), st0)
         | (Some c, st0) \<Rightarrow>
             (case execute st0 [] (restore_stmt c request_id) of
                Inl (DbError m) \<Rightarrow>
                  (case rollback st0 c of
                     Inl e \<Rightarrow> (Inl e, return_connection st0 (Some c))
                   | Inr st1 \<Rightarrow>
                       (Inr (False, Some (RestoreFailed m)), return_connection st1 (Some c)))
              | Inl e \<Rightarrow> (Inl e, return_connection st0 (Some c))
              | Inr (returned, c') \<Rightarrow>
                  (case fetchone returned of
                     None \<Rightarrow>
                       (Inr (False, Some NotFoundOrNotDeleted), return_connection st0 (Some c'))
                   | Some result \<Rightarrow>
                       (Inr (True, None), return_connection (commit st0 c') (Some c'))))))"

section \<open>Search over requests\<close>

text \<open>
  One filter of lines 610 to 640: the test \<^verbatim>\<open>'k' in filters and filters['k']\<close>, and the
  condition the branch adds to the \<^verbatim>\<open>WHERE\<close> clause for the value.
\<close>

definition clause ::
  "'a option \<Rightarrow> ('a \<Rightarrow> bool) \<Rightarrow> ('a \<Rightarrow> request_row \<Rightarrow> bool) \<Rightarrow> (request_row \<Rightarrow> bool) list" where
  "clause v truthy cond =
     (case v of None \<Rightarrow> [] | Some x \<Rightarrow> if truthy x then [cond x] else [])"

text \<open>
  The conditions of the composed \<^verbatim>\<open>WHERE\<close> clause, in the order the source appends them.
  \<^verbatim>\<open>filters\<close> is \<open>None\<close> where the caller passed \<^verbatim>\<open>None\<close>; the test \<^verbatim>\<open>if filters\<close> also skips an
  empty dictionary, which adds no condition either way. A date is always true in Python.
\<close>

definition where_clause ::
  "(nat \<Rightarrow> nat) \<Rightarrow> filters option \<Rightarrow> bool \<Rightarrow> (request_row \<Rightarrow> bool) list" where
  "where_clause lower fs include_deleted =
     (if \<not> include_deleted then [\<lambda>r. pr_deleted_at r = None] else []) @
     (case fs of
        None \<Rightarrow> []
      | Some f \<Rightarrow>
          clause (f_request_number f) truthy_int (\<lambda>v r. pr_request_number r = v) @
          clause (f_requester_name f) truthy_str
            (\<lambda>v r. ilike lower (search_pattern v) (pr_requester_name r)) @
          clause (f_requesting_unit f) truthy_str
            (\<lambda>v r. ilike lower (search_pattern v) (pr_requesting_unit r)) @
          clause (f_year f) truthy_int (\<lambda>v r. pr_year r = v) @
          clause (f_month f) truthy_int (\<lambda>v r. pr_month r = v) @
          clause (f_status f) truthy_str (\<lambda>v r. pr_status r = v) @
          clause (f_date_from f) (\<lambda>_. True) (\<lambda>v r. pr_request_date_gregorian r \<ge> v) @
          clause (f_date_to f) (\<lambda>_. True) (\<lambda>v r. pr_request_date_gregorian r \<le> v))"

text \<open>
  The text parameters the same branches append to \<^verbatim>\<open>params\<close>: the two patterns and the
  status, each where its branch is taken.
\<close>

definition text_param :: "str option \<Rightarrow> (str \<Rightarrow> str) \<Rightarrow> str list" where
  "text_param v f = (case v of None \<Rightarrow> [] | Some x \<Rightarrow> if truthy_str x then [f x] else [])"

definition query_params :: "filters option \<Rightarrow> str list" where
  "query_params fs =
     (case fs of
        None \<Rightarrow> []
      | Some f \<Rightarrow>
          text_param (f_requester_name f) search_pattern @
          text_param (f_requesting_unit f) search_pattern @
          text_param (f_status f) (\<lambda>v. v))"

text \<open>
  The query of lines 596 to 642: the requests that pass every condition, each with the
  number of items joined to it (\<^verbatim>\<open>GROUP BY pr.id\<close> over the left join; the id is the table's
  key, so every request is a group of its own), ordered by request number descending.
\<close>

definition requests_query :: "connection \<Rightarrow> (request_row \<Rightarrow> bool) list \<Rightarrow> (request_row \<times> int) list" where
  "requests_query c conds =
     sort_key (\<lambda>(r, n). - pr_request_number r)
       (map (\<lambda>r. (r, int (length (filter (\<lambda>i. pr_id r = ri_request_id i) (view_items c)))))
          (filter (\<lambda>r. list_all (\<lambda>cond. cond r) conds) (view_requests c)))"

text \<open>
  \<^verbatim>\<open>search_requests\<close>: the handler \<^verbatim>\<open>except Error\<close> turns a database error into the empty
  list; the \<^verbatim>\<open>ValueError\<close> of a filter text the driver refuses leaves the method.
\<close>

definition search_requests ::
  "(nat \<Rightarrow> nat) \<Rightarrow> state \<Rightarrow> filters option \<Rightarrow> bool \<Rightarrow>
     (exception + (request_row \<times> int) list) \<times> state" where
  "search_requests lower st fs include_deleted =
     (if \<not> is_connected st then (Inr [], st)
      else
        (case get_connection st of
           (None, st0) \<Rightarrow> (Inr [], st0)
         | (Some c, st0) \<Rightarrow>
             (case execute st0 (query_params fs)
                     (requests_query c (where_clause lower fs include_deleted)) of
                Inl (DbError m) \<Rightarrow> (Inr [], return_connection st0 (Some c))
              | Inl e \<Rightarrow> (Inl e, return_connection st0 (Some c))
              | Inr results \<Rightarrow> (Inr results, return_connection st0 (Some c)))))"

section \<open>Statistics\<close>

record statistics =
  s_total :: int
  s_pending :: int
  s_approved :: int
  s_rejected :: int
  s_completed :: int

definition zero_statistics :: statistics where
  "zero_statistics = \<lparr>s_total = 0, s_pending = 0, s_approved = 0, s_rejected = 0, s_completed = 0\<rparr>"

text \<open>\<^verbatim>\<open>SELECT COUNT(*) FROM purchase_requests WHERE\<close> the condition.\<close>

definition count_where :: "connection \<Rightarrow> (request_row \<Rightarrow> bool) \<Rightarrow> int" where
  "count_where c cond = int (length (filter cond (view_requests c)))"

definition get_statistics :: "state \<Rightarrow> statistics \<times> state" where
  "get_statistics st =
     (if \<not> is_connected st then (zero_statistics, st)
      else
        (case get_connection st of
           (None, st0) \<Rightarrow> (zero_statistics, st0)
         | (Some c, st0) \<Rightarrow>
             (case
                bind (execute st0 [] (count_where c (\<lambda>r. pr_deleted_at r = None))) (\<lambda>total.
                bind (execute st0 []
                        (count_where c
                           (\<lambda>r. pr_status r = lit ''pending'' \<and> pr_deleted_at r = None)))
                  (\<lambda>pending.
                bind (execute st0 []
                        (count_where c
                           (\<lambda>r. pr_status r = lit ''approved'' \<and> pr_deleted_at r = None)))
                  (\<lambda>approved.
                bind (execute st0 []
                        (count_where c
                           (\<lambda>r. pr_status r = lit ''rejected'' \<and> pr_deleted_at r = None)))
                  (\<lambda>rejected.
                bind (execute st0 []
                        (count_where c
                           (\<lambda>r. pr_status r = lit ''completed'' \<and> pr_deleted_at r = None)))
                  (\<lambda>completed.
                Inr \<lparr>s_total = total, s_pending = pending, s_approved = approved,
                     s_rejected = rejected, s_completed = completed\<rparr>)))))
              of
                Inl e \<Rightarrow> (zero_statistics, return_connection st0 (Some c))
              | Inr stats \<Rightarrow> (stats, return_connection st0 (Some c)))))"

section \<open>Conditions and sample data\<close>

text \<open>The pool exists and has not been closed: \<^verbatim>\<open>getconn\<close> hands out a connection.\<close>

definition pool_open :: "state \<Rightarrow> bool" where
  "pool_open st = (case connection_pool st of None \<Rightarrow> False | Some p \<Rightarrow> \<not> closed p)"

text \<open>A storage with empty tables and a running server, before any manager is built on it.\<close>

definition fresh_storage :: state where
  "fresh_storage =
     \<lparr>connection_pool = None, is_connected = False, server_up = True,
      purchase_requests = [], request_items = [],
      purchase_requests_id_seq = 1, request_items_id_seq = 1\<rparr>"

text \<open>A request row, and a connected manager on a storage that holds the given rows.\<close>

definition sample_request :: request_row where
  "sample_request =
     \<lparr>pr_id = 1, pr_request_number = 1001, pr_request_date_jalali = lit ''1403/01/15'',
      pr_request_date_gregorian = 739000, pr_requesting_unit = lit ''Workshop'',
      pr_requester_name = lit ''Ali'', pr_pdf_file_path = lit ''r1001.pdf'', pr_year = 1403,
      pr_month = 1, pr_month_name = lit ''Farvardin'', pr_status = lit ''pending'',
      pr_deleted_at = None\<rparr>"

definition sample_state :: "request_row list \<Rightarrow> item_row list \<Rightarrow> state" where
  "sample_state requests items =
     (init fresh_storage)\<lparr>purchase_requests := requests, request_items := items\<rparr>"

text \<open>
  A storage whose server accepts no connection: the pool cannot be built on it. And a
  manager that was connected to a running server which has been lost since.
\<close>

definition lost_storage :: state where
  "lost_storage = fresh_storage\<lparr>server_up := False\<rparr>"

definition lost_since :: "state \<Rightarrow> state" where
  "lost_since st = st\<lparr>server_up := False\<rparr>"

text \<open>
  The rows the statement of \<open>restore_request\<close> selects, and the table after it: the selected
  rows with the timestamp cleared, every other row as it was.
\<close>

definition soft_deleted :: "int \<Rightarrow> request_row \<Rightarrow> bool" where
  "soft_deleted request_id r = (pr_id r = request_id \<and> pr_deleted_at r \<noteq> None)"

definition restored :: "int \<Rightarrow> request_row list \<Rightarrow> request_row list" where
  "restored request_id rows =
     map (\<lambda>r. if soft_deleted request_id r then r\<lparr>pr_deleted_at := None\<rparr> else r) rows"

text \<open>
  The item rows after the storage has given them ids, counting up from \<open>k\<close>.
\<close>

fun numbered :: "int \<Rightarrow> item_row list \<Rightarrow> item_row list" where
  "numbered k [] = []"
| "numbered k (row # rows) = row\<lparr>ri_id := k\<rparr> # numbered (k + 1) rows"

text \<open>
  A request dictionary with every key but \<^verbatim>\<open>status\<close> (its values are those of
  \<open>sample_request\<close>), an item dictionary without \<^verbatim>\<open>purchase_location\<close>, and a storage
  whose item table refuses a quantity that is not positive.
\<close>

definition sample_data :: request_data where
  "sample_data =
     \<lparr>rd_request_number = Some 1001, rd_request_date_jalali = Some (lit ''1403/01/15''),
      rd_request_date_gregorian = Some 739000, rd_requesting_unit = Some (lit ''Workshop''),
      rd_requester_name = Some (lit ''Ali''), rd_pdf_file_path = Some (lit ''r1001.pdf''),
      rd_year = Some 1403, rd_month = Some 1, rd_month_name = Some (lit ''Farvardin''),
      rd_status = None\<rparr>"

definition sample_item :: "int \<Rightarrow> int \<Rightarrow> item_data" where
  "sample_item n q =
     \<lparr>it_row_number = Some n, it_description = Some (lit ''bolt''), it_quantity = Some q,
      it_unit = Some (lit ''box''), it_purchase_location = None, it_notes = Some []\<rparr>"

definition positive_quantity :: rules where
  "positive_quantity =
     \<lparr>request_rule = (\<lambda>_ _. None),
      item_rule = (\<lambda>_ r. if ri_quantity r \<le> 0 then Some ''quantity must be positive'' else None)\<rparr>"

text \<open>
  The number of active requests of a status, and of active requests: those among the rows
  whose soft-delete timestamp is unset.
\<close>

definition active_with :: "state \<Rightarrow> str \<Rightarrow> int" where
  "active_with st s =
     int (length (filter (\<lambda>r. pr_status r = s \<and> pr_deleted_at r = None) (purchase_requests st)))"

definition active_total :: "state \<Rightarrow> int" where
  "active_total st = int (length (filter (\<lambda>r. pr_deleted_at r = None) (purchase_requests st)))"

text \<open>An item of \<open>sample_request\<close>.\<close>

definition sample_item_row :: item_row where
  "sample_item_row =
     \<lparr>ri_id = 1, ri_request_id = 1, ri_row_number = 1, ri_description = lit ''Bolt M8'',
      ri_quantity = 2, ri_unit = lit ''box'', ri_purchase_location = tehran, ri_notes = []\<rparr>"

text \<open>
  Two lowerings for the examples: the letters A to Z alone, and with them the capital
  letters of the Latin-1 range (code points 192 to 222, the multiplication sign apart).
\<close>

definition ascii_lower :: "nat \<Rightarrow> nat" where
  "ascii_lower c = (if 65 \<le> c \<and> c \<le> 90 then c + 32 else c)"

definition latin1_lower :: "nat \<Rightarrow> nat" where
  "latin1_lower c =
     (if (65 \<le> c \<and> c \<le> 90) \<or> (192 \<le> c \<and> c \<le> 222 \<and> c \<noteq> 215) then c + 32 else c)"

text \<open>
  A lowering leaves the three operator characters of \<^verbatim>\<open>LIKE\<close> alone and lowers no other
  character to one of them: they are no letters in any locale.
\<close>

definition keeps_operators :: "(nat \<Rightarrow> nat) \<Rightarrow> bool" where
  "keeps_operators lower =
     (\<forall>c. (lower c = percent \<longleftrightarrow> c = percent) \<and> (lower c = underscore \<longleftrightarrow> c = underscore) \<and>
          (lower c = backslash \<longleftrightarrow> c = backslash))"

text \<open>
  The selection as the specification words it, to be compared with \<open>where_clause\<close>. A text
  \<open>v\<close> is a case-insensitive substring of \<open>s\<close> when the lowered \<open>v\<close> occurs in the lowered
  \<open>s\<close>. A filter counts when its key is present and its value is not empty: a text other
  than the empty one, any number, any date.
\<close>

fun starts_with :: "str \<Rightarrow> str \<Rightarrow> bool" where
  "starts_with s [] = True"
| "starts_with [] (a # v) = False"
| "starts_with (c # s) (a # v) = (c = a \<and> starts_with s v)"

fun occurs_in :: "str \<Rightarrow> str \<Rightarrow> bool" where
  "occurs_in v [] = (v = [])"
| "occurs_in v (c # s) = (starts_with (c # s) v \<or> occurs_in v s)"

definition substring_ci :: "(nat \<Rightarrow> nat) \<Rightarrow> str \<Rightarrow> str \<Rightarrow> bool" where
  "substring_ci lower v s = occurs_in (map lower v) (map lower s)"

definition given :: "'a option \<Rightarrow> ('a \<Rightarrow> bool) \<Rightarrow> ('a \<Rightarrow> bool) \<Rightarrow> bool" where
  "given v nonempty cond = (case v of None \<Rightarrow> True | Some x \<Rightarrow> nonempty x \<longrightarrow> cond x)"

text \<open>
  \<open>spec_selects\<close>: request number exact; requester name and requesting unit by
  case-insensitive substring; year, month and status exact; the Gregorian date within the
  inclusive range; soft-deleted rows only with \<open>include_deleted\<close>.
\<close>

definition spec_selects :: "(nat \<Rightarrow> nat) \<Rightarrow> filters option \<Rightarrow> bool \<Rightarrow> request_row \<Rightarrow> bool" where
  "spec_selects lower fs include_deleted r =
     ((include_deleted \<or> pr_deleted_at r = None) \<and>
      (case fs of
         None \<Rightarrow> True
       | Some f \<Rightarrow>
           given (f_request_number f) (\<lambda>_. True) (\<lambda>v. pr_request_number r = v) \<and>
           given (f_requester_name f) truthy_str
             (\<lambda>v. substring_ci lower v (pr_requester_name r)) \<and>
           given (f_requesting_unit f) truthy_str
             (\<lambda>v. substring_ci lower v (pr_requesting_unit r)) \<and>
           given (f_year f) (\<lambda>_. True) (\<lambda>v. pr_year r = v) \<and>
           given (f_month f) (\<lambda>_. True) (\<lambda>v. pr_month r = v) \<and>
           given (f_status f) truthy_str (\<lambda>v. pr_status r = v) \<and>
           given (f_date_from f) (\<lambda>_. True) (\<lambda>v. v \<le> pr_request_date_gregorian r) \<and>
           given (f_date_to f) (\<lambda>_. True) (\<lambda>v. pr_request_date_gregorian r \<le> v)))"

text \<open>
  \<open>pattern_selects\<close>, the selection with the two differences of the source: a number
  counts only when it is not zero, and the two names are matched as the case-insensitive
  \<^verbatim>\<open>LIKE\<close> pattern made of the text between two percent signs.
\<close>

definition pattern_selects ::
  "(nat \<Rightarrow> nat) \<Rightarrow> filters option \<Rightarrow> bool \<Rightarrow> request_row \<Rightarrow> bool" where
  "pattern_selects lower fs include_deleted r =
     ((include_deleted \<or> pr_deleted_at r = None) \<and>
      (case fs of
         None \<Rightarrow> True
       | Some f \<Rightarrow>
           given (f_request_number f) truthy_int (\<lambda>v. pr_request_number r = v) \<and>
           given (f_requester_name f) truthy_str
             (\<lambda>v. ilike lower (search_pattern v) (pr_requester_name r)) \<and>
           given (f_requesting_unit f) truthy_str
             (\<lambda>v. ilike lower (search_pattern v) (pr_requesting_unit r)) \<and>
           given (f_year f) truthy_int (\<lambda>v. pr_year r = v) \<and>
           given (f_month f) truthy_int (\<lambda>v. pr_month r = v) \<and>
           given (f_status f) truthy_str (\<lambda>v. pr_status r = v) \<and>
           given (f_date_from f) (\<lambda>_. True) (\<lambda>v. v \<le> pr_request_date_gregorian r) \<and>
           given (f_date_to f) (\<lambda>_. True) (\<lambda>v. pr_request_date_gregorian r \<le> v)))"

text \<open>
  A text without the three operator characters; a filter dictionary whose two name filters
  are such texts; one whose three number filters are not zero; and one whose text filters
  the driver can send.
\<close>

definition wildcard_free :: "str \<Rightarrow> bool" where
  "wildcard_free t = list_all (\<lambda>c. c \<noteq> percent \<and> c \<noteq> underscore \<and> c \<noteq> backslash) t"

definition plain_text :: "filters option \<Rightarrow> bool" where
  "plain_text fs =
     (case fs of
        None \<Rightarrow> True
      | Some f \<Rightarrow>
          (case f_requester_name f of None \<Rightarrow> True | Some t \<Rightarrow> wildcard_free t) \<and>
          (case f_requesting_unit f of None \<Rightarrow> True | Some t \<Rightarrow> wildcard_free t))"

definition nonzero_numbers :: "filters option \<Rightarrow> bool" where
  "nonzero_numbers fs =
     (case fs of
        None \<Rightarrow> True
      | Some f \<Rightarrow> f_request_number f \<noteq> Some 0 \<and> f_year f \<noteq> Some 0 \<and> f_month f \<noteq> Some 0)"

definition sendable :: "filters option \<Rightarrow> bool" where
  "sendable fs = list_all nul_free (query_params fs)"

text \<open>
  Four requests that differ in number and requester. The first two names are the French
  words for school and for secondary school, the one with a capital initial and the other
  in capitals, whose accented letter E is the code point 201 as a capital and 233 as a
  small letter; the third is \<^verbatim>\<open>Reza\<close>; the fourth, soft-deleted, is the small accented letter
  alone.
\<close>

definition named :: "int \<Rightarrow> int \<Rightarrow> str \<Rightarrow> request_row" where
  "named i n name = sample_request\<lparr>pr_id := i, pr_request_number := n, pr_requester_name := name\<rparr>"

definition name_samples :: "request_row list" where
  "name_samples =
     [named 1 1001 [201, 99, 111, 108, 101], named 2 1002 [76, 89, 67, 201, 69],
      named 3 1003 (lit ''Reza''), (named 4 1004 [233])\<lparr>pr_deleted_at := Some 5\<rparr>]"

text \<open>The empty filter dictionary, and the number of items joined to a request.\<close>

definition no_filters :: filters where
  "no_filters =
     \<lparr>f_request_number = None, f_requester_name = None, f_requesting_unit = None,
      f_year = None, f_month = None, f_status = None, f_date_from = None, f_date_to = None\<rparr>"

definition items_of :: "state \<Rightarrow> request_row \<Rightarrow> int" where
  "items_of st r = int (length (filter (\<lambda>i. ri_request_id i = pr_id r) (request_items st)))"

section \<open>Properties\<close>

subsection \<open>Basic facts about the pool and the statements\<close>

lemma join_valid_statuses:
  "join (lit '', '') valid_statuses = lit ''pending, approved, rejected, completed''"
  by (simp add: valid_statuses_def lit_def)

lemma valid_status_nul_free: "s \<in> set valid_statuses \<Longrightarrow> nul_free s"
  by (auto simp: valid_statuses_def lit_def nul_free_def)

lemma pool_getconn_open:
  "pool_open st \<Longrightarrow> pool_getconn st = Inr (snapshot st, serve st (the (connection_pool st)))"
  by (auto simp: pool_open_def pool_getconn_def getconn_def split: option.splits)

lemma get_connection_open:
  "pool_open st \<Longrightarrow>
     get_connection st = (Some (snapshot st), serve st (the (connection_pool st)))"
  by (auto simp: pool_open_def get_connection_def getconn_def split: option.splits)

lemma get_connection_not_open: "\<not> pool_open st \<Longrightarrow> get_connection st = (None, st)"
  by (auto simp: pool_open_def get_connection_def getconn_def split: option.splits)

lemma serve_fields [simp]:
  "is_connected (serve st p) = is_connected st"
  "server_up (serve st p) = server_up st"
  "purchase_requests (serve st p) = purchase_requests st"
  "request_items (serve st p) = request_items st"
  "purchase_requests_id_seq (serve st p) = purchase_requests_id_seq st"
  "request_items_id_seq (serve st p) = request_items_id_seq st"
  by (simp_all add: serve_def)

lemma adapt_iff: "adapt params = Inr () \<longleftrightarrow> list_all nul_free params"
  by (simp add: adapt_def)

lemma execute_up: "server_up st \<Longrightarrow> list_all nul_free params \<Longrightarrow> execute st params x = Inr x"
  by (simp add: execute_def send_def adapt_def)

lemma execute_up_no_text [simp]: "server_up st \<Longrightarrow> execute st [] x = Inr x"
  by (simp add: execute_up)

lemma execute_down_no_text [simp]:
  "\<not> server_up st \<Longrightarrow> execute st [] x = Inl (DbError not_executed)"
  by (simp add: execute_def send_def adapt_def)

lemma execute_refused:
  "\<not> list_all nul_free params \<Longrightarrow> execute st params x = Inl (ValueError nul_refused)"
  by (simp add: execute_def adapt_def)

text \<open>
  A statement raises the driver's \<open>ValueError\<close> or a database error, and a statement
  without text parameters nothing but the database error that every handler catches.
\<close>

lemma execute_cases:
  "execute st params x =
     (if \<not> list_all nul_free params then Inl (ValueError nul_refused)
      else if \<not> server_up st then Inl (DbError not_executed)
      else Inr x)"
  by (simp add: execute_def send_def adapt_def)

lemma execute_raises_db: "execute st [] x = Inl e \<Longrightarrow> e = DbError not_executed"
  by (simp add: execute_cases split: if_splits)

lemma rollback_up [simp]: "server_up st \<Longrightarrow> rollback st c = Inr st"
  by (simp add: rollback_def)

lemma rollback_down [simp]: "\<not> server_up st \<Longrightarrow> rollback st c = Inl (DbError connection_closed)"
  by (simp add: rollback_def)

lemma init_fresh_storage:
  "init fresh_storage =
     fresh_storage\<lparr>connection_pool := Some new_pool, is_connected := True\<rparr>"
  by (simp add: init_def initialize_pool_def fresh_storage_def)

lemma pool_open_init_fresh [simp]: "pool_open (init fresh_storage)"
  by (simp add: init_fresh_storage pool_open_def new_pool_def)

lemma fields_init_fresh [simp]:
  "is_connected (init fresh_storage)"
  "server_up (init fresh_storage)"
  "purchase_requests (init fresh_storage) = []"
  "request_items (init fresh_storage) = []"
  unfolding init_fresh_storage by (simp_all add: fresh_storage_def)

lemma sample_state_fields [simp]:
  "is_connected (sample_state rs is)"
  "server_up (sample_state rs is)"
  "pool_open (sample_state rs is)"
  "purchase_requests (sample_state rs is) = rs"
  "request_items (sample_state rs is) = is"
  unfolding sample_state_def init_fresh_storage
  by (simp_all add: pool_open_def new_pool_def fresh_storage_def)

lemma lost_since_fields [simp]:
  "is_connected (lost_since st) = is_connected st"
  "\<not> server_up (lost_since st)"
  "pool_open (lost_since st) = pool_open st"
  "purchase_requests (lost_since st) = purchase_requests st"
  "request_items (lost_since st) = request_items st"
  by (simp_all add: lost_since_def pool_open_def)

lemma pool_open_close_all [simp]: "\<not> pool_open (close_all_connections st)"
  by (simp add: pool_open_def close_all_connections_def split: option.splits)

lemma close_all_fields [simp]:
  "is_connected (close_all_connections st) = is_connected st"
  "purchase_requests (close_all_connections st) = purchase_requests st"
  by (simp_all add: close_all_connections_def split: option.splits)

lemma fetchone_None: "fetchone ys = None \<longleftrightarrow> ys = []"
  by (simp add: fetchone_def split: list.splits)

lemma fetchone_map_filter:
  "fetchone (map f (filter P xs)) = None \<longleftrightarrow> \<not> (\<exists>x \<in> set xs. P x)"
  by (simp add: fetchone_None filter_empty_conv)

subsection \<open>Status transition\<close>

text \<open>
  Claim C3. For every id and every \<open>new_status\<close> outside pending, approved, rejected,
  completed, \<open>update_request_status\<close> returns the failure whose message lists the four valid
  values, and the state it returns is the state it received: no connection was taken from
  the pool (the pool's counter is part of the state) and no row was touched. For a valid
  status, on an open pool with the server answering, where no row carries the id, it returns
  the not-found failure and both tables are as before.
\<close>

theorem update_request_status_validates:
  "(new_status \<notin> set valid_statuses \<longrightarrow>
      update_request_status st request_id new_status =
        (Inr (False, Some (InvalidStatus (lit ''pending, approved, rejected, completed''))), st)) \<and>
   (new_status \<in> set valid_statuses \<and> pool_open st \<and> server_up st \<and>
    (\<forall>r \<in> set (purchase_requests st). pr_id r \<noteq> request_id) \<longrightarrow>
      fst (update_request_status st request_id new_status) =
        Inr (False, Some RequestNotFound) \<and>
      purchase_requests (snd (update_request_status st request_id new_status)) =
        purchase_requests st \<and>
      request_items (snd (update_request_status st request_id new_status)) = request_items st)"
proof -
  have invalid: "update_request_status st request_id new_status =
        (Inr (False, Some (InvalidStatus (lit ''pending, approved, rejected, completed''))), st)"
    if "new_status \<notin> set valid_statuses"
    using that by (simp add: update_request_status_def join_valid_statuses)
  have missing:
    "fst (update_request_status st request_id new_status) = Inr (False, Some RequestNotFound) \<and>
     purchase_requests (snd (update_request_status st request_id new_status)) =
       purchase_requests st \<and>
     request_items (snd (update_request_status st request_id new_status)) = request_items st"
    if a: "new_status \<in> set valid_statuses" "pool_open st" "server_up st"
      "\<forall>r \<in> set (purchase_requests st). pr_id r \<noteq> request_id"
  proof -
    from a have none: "filter (\<lambda>r. pr_id r = request_id) (purchase_requests st) = []"
      by (auto simp: filter_empty_conv)
    from a(1) have "nul_free new_status"
      by (rule valid_status_nul_free)
    with a none show ?thesis
      by (simp add: update_request_status_def pool_getconn_open update_status_stmt_def
          snapshot_def fetchone_def return_connection_def execute_up)
  qed
  from invalid missing show ?thesis by blast
qed

theorem update_request_status_validates_witness:
  "update_request_status (init fresh_storage) 7 (lit ''archived'') =
     (Inr (False, Some (InvalidStatus (lit ''pending, approved, rejected, completed''))),
      init fresh_storage) \<and>
   fst (update_request_status (init fresh_storage) 7 (lit ''approved'')) =
     Inr (False, Some RequestNotFound)"
proof -
  have 1: "lit ''archived'' \<notin> set valid_statuses"
    by (simp add: valid_statuses_def lit_def)
  have 2: "lit ''approved'' \<in> set valid_statuses \<and> pool_open (init fresh_storage) \<and>
      server_up (init fresh_storage) \<and>
      (\<forall>r \<in> set (purchase_requests (init fresh_storage)). pr_id r \<noteq> 7)"
    by (simp add: valid_statuses_def)
  show ?thesis
    using update_request_status_validates [of "lit ''archived''" "init fresh_storage" 7] 1
      update_request_status_validates [of "lit ''approved''" "init fresh_storage" 7] 2
    by blast
qed

subsection \<open>Duplicate check\<close>

text \<open>
  Claim C8. When the manager is not connected, or no connection can be acquired,
  \<open>check_duplicate_request_number\<close> returns \<open>(False, None)\<close> for every request number, and
  this is the very answer a connected manager gives when no active row carries the number:
  the caller sees the same value whether no conflict exists or the check could not run.
\<close>

theorem check_duplicate_unavailable:
  assumes "\<not> is_connected st \<or> \<not> pool_open st"
    and "is_connected st'" "pool_open st'" "server_up st'"
    and "\<forall>r \<in> set (purchase_requests st'). pr_request_number r = n \<longrightarrow> pr_deleted_at r \<noteq> None"
  shows "check_duplicate_request_number st n = ((False, None), st) \<and>
         fst (check_duplicate_request_number st' n) = fst (check_duplicate_request_number st n)"
proof -
  from assms(1) have 1: "check_duplicate_request_number st n = ((False, None), st)"
    by (auto simp: check_duplicate_request_number_def get_connection_not_open)
  from assms(5) have "filter (\<lambda>r. pr_request_number r = n \<and> pr_deleted_at r = None)
      (purchase_requests st') = []"
    by (auto simp: filter_empty_conv)
  with assms(2-4) have "fst (check_duplicate_request_number st' n) = (False, None)"
    by (simp add: check_duplicate_request_number_def get_connection_open snapshot_def
        fetchone_def return_connection_def)
  with 1 show ?thesis by simp
qed

theorem check_duplicate_unavailable_witness:
  "pr_request_number sample_request = 1001 \<and> pr_deleted_at sample_request = None \<and>
   sample_request \<in> set (purchase_requests (close_all_connections (sample_state [sample_request] []))) \<and>
   fst (check_duplicate_request_number (close_all_connections (sample_state [sample_request] [])) 1001)
     = (False, None) \<and>
   fst (check_duplicate_request_number (sample_state [] []) 1001) = (False, None)"
proof -
  have a: "\<not> is_connected (close_all_connections (sample_state [sample_request] [])) \<or>
           \<not> pool_open (close_all_connections (sample_state [sample_request] []))"
    by simp
  have b: "is_connected (sample_state [] [])" "pool_open (sample_state [] [])"
    "server_up (sample_state [] [])"
    "\<forall>r \<in> set (purchase_requests (sample_state [] [])).
        pr_request_number r = 1001 \<longrightarrow> pr_deleted_at r \<noteq> None"
    by simp_all
  show ?thesis
    using check_duplicate_unavailable [OF a b] by (simp add: sample_request_def)
qed

subsection \<open>The connectivity flag\<close>

text \<open>
  Claim C6, evaluated on the code. On a manager whose pool construction failed the flag
  \<open>is_connected\<close> is false and \<open>connection_pool\<close> is \<open>None\<close>. \<open>update_request_status\<close> does
  not read the flag: it calls \<open>getconn\<close> on \<open>None\<close>, and its handler turns the attribute
  error into the status-change failure. \<open>restore_request\<close>, like the other methods, reads
  the flag and answers with the not-connected failure. \<open>test_connection\<close> does not read the
  flag either; it answers \<open>False\<close> because \<open>get_connection\<close> finds no pool.
\<close>

theorem update_request_status_ignores_flag:
  "\<not> is_connected (init lost_storage) \<and>
   update_request_status (init lost_storage) request_id (lit ''approved'') =
     (Inr (False, Some (StatusChangeFailed none_has_no_getconn)), init lost_storage) \<and>
   restore_request (init lost_storage) request_id =
     (Inr (False, Some NotConnected), init lost_storage) \<and>
   test_connection (init lost_storage) = (False, init lost_storage)"
proof -
  have i: "init lost_storage = lost_storage"
    by (simp add: init_def initialize_pool_def lost_storage_def fresh_storage_def)
  have f: "\<not> is_connected lost_storage" "connection_pool lost_storage = None"
    by (simp_all add: lost_storage_def fresh_storage_def)
  show ?thesis unfolding i using f
    by (simp add: update_request_status_def valid_statuses_def pool_getconn_def
        restore_request_def test_connection_def get_connection_def)
qed

subsection \<open>Restore\<close>

lemma restore_stmt_eq:
  "restore_stmt c request_id =
     (map pr_request_number (filter (soft_deleted request_id) (view_requests c)),
      c\<lparr>view_requests := restored request_id (view_requests c)\<rparr>)"
  by (simp add: restore_stmt_def restored_def soft_deleted_def [abs_def])

text \<open>
  Claim C5. \<open>restore_request\<close> clears the soft-delete timestamp exactly where it is set. On
  a connected manager with the server answering, when a row with the id has its timestamp
  set, the call succeeds, the table is the old one with the timestamp of those rows cleared,
  and every row with the id is active afterwards. When no row with the id has its timestamp
  set (the row is active already, or there is none), the call never succeeds and the table
  is unchanged: it returns the not-found-or-not-deleted failure when the storage was
  reached, and a failure as well when the manager is not connected or has no open pool.
  The items are never touched. (Where the server was lost after the manager connected, the
  rollback of the handler raises, and the table is unchanged all the same.)
\<close>

theorem restore_request_iff:
  "(is_connected st \<and> pool_open st \<and> server_up st \<and>
    (\<exists>r \<in> set (purchase_requests st). soft_deleted request_id r) \<longrightarrow>
      fst (restore_request st request_id) = Inr (True, None) \<and>
      purchase_requests (snd (restore_request st request_id)) =
        restored request_id (purchase_requests st) \<and>
      (\<forall>r \<in> set (purchase_requests (snd (restore_request st request_id))).
         pr_id r = request_id \<longrightarrow> pr_deleted_at r = None)) \<and>
   (\<not> (\<exists>r \<in> set (purchase_requests st). soft_deleted request_id r) \<longrightarrow>
      fst (restore_request st request_id) \<noteq> Inr (True, None) \<and>
      (server_up st \<or> \<not> is_connected st \<or> \<not> pool_open st \<longrightarrow>
         (\<exists>m. fst (restore_request st request_id) = Inr (False, Some m))) \<and>
      (is_connected st \<and> pool_open st \<and> server_up st \<longrightarrow>
         fst (restore_request st request_id) = Inr (False, Some NotFoundOrNotDeleted)) \<and>
      purchase_requests (snd (restore_request st request_id)) = purchase_requests st) \<and>
   (is_connected st \<and> pool_open st \<and> \<not> server_up st \<longrightarrow>
      fst (restore_request st request_id) = Inl (DbError connection_closed) \<and>
      purchase_requests (snd (restore_request st request_id)) = purchase_requests st) \<and>
   request_items (snd (restore_request st request_id)) = request_items st"
proof (cases "is_connected st \<and> pool_open st")
  case False
  then show ?thesis
    by (auto simp: restore_request_def get_connection_not_open)
next
  case conn: True
  show ?thesis
  proof (cases "server_up st")
    case False
    with conn show ?thesis
      by (simp add: restore_request_def get_connection_open return_connection_def)
  next
    case up: True
    show ?thesis
    proof (cases "\<exists>r \<in> set (purchase_requests st). soft_deleted request_id r")
      case True
      then have "fetchone (map pr_request_number
          (filter (soft_deleted request_id) (purchase_requests st))) \<noteq> None"
        unfolding fetchone_map_filter by simp
      then obtain n where "fetchone (map pr_request_number
          (filter (soft_deleted request_id) (purchase_requests st))) = Some n"
        by blast
      with conn up True show ?thesis
        by (auto simp: restore_request_def get_connection_open restore_stmt_eq snapshot_def
            return_connection_def commit_def restored_def soft_deleted_def)
    next
      case False
      then have "fetchone (map pr_request_number
          (filter (soft_deleted request_id) (purchase_requests st))) = None"
        unfolding fetchone_map_filter by simp
      with conn up False show ?thesis
        by (simp add: restore_request_def get_connection_open restore_stmt_eq snapshot_def
            return_connection_def)
    qed
  qed
qed

theorem restore_request_iff_witness:
  "fst (restore_request (sample_state [sample_request\<lparr>pr_deleted_at := Some 5\<rparr>] []) 1) =
     Inr (True, None) \<and>
   purchase_requests (snd (restore_request (sample_state [sample_request\<lparr>pr_deleted_at := Some 5\<rparr>] []) 1))
     = [sample_request] \<and>
   fst (restore_request (sample_state [sample_request] []) 1) =
     Inr (False, Some NotFoundOrNotDeleted) \<and>
   purchase_requests (snd (restore_request (sample_state [sample_request] []) 1)) = [sample_request] \<and>
   fst (restore_request (sample_state [sample_request] []) 2) =
     Inr (False, Some NotFoundOrNotDeleted) \<and>
   fst (restore_request (lost_since (sample_state [sample_request] [])) 1) =
     Inl (DbError connection_closed) \<and>
   purchase_requests (snd (restore_request (lost_since (sample_state [sample_request] [])) 1)) =
     [sample_request]"
proof -
  let ?d = "sample_state [sample_request\<lparr>pr_deleted_at := Some 5\<rparr>] []"
  let ?a = "sample_state [sample_request] []"
  let ?l = "lost_since (sample_state [sample_request] [])"
  have d: "is_connected ?d \<and> pool_open ?d \<and> server_up ?d \<and>
      (\<exists>r \<in> set (purchase_requests ?d). soft_deleted 1 r)"
    by (simp add: soft_deleted_def sample_request_def)
  have a: "\<not> (\<exists>r \<in> set (purchase_requests ?a). soft_deleted 1 r)"
     "\<not> (\<exists>r \<in> set (purchase_requests ?a). soft_deleted 2 r)"
     "is_connected ?a \<and> pool_open ?a \<and> server_up ?a"
    by (simp_all add: soft_deleted_def sample_request_def)
  have l: "is_connected ?l \<and> pool_open ?l \<and> \<not> server_up ?l"
    by simp
  have r: "restored 1 [sample_request\<lparr>pr_deleted_at := Some 5\<rparr>] = [sample_request]"
    by (simp add: restored_def soft_deleted_def sample_request_def)
  show ?thesis
    using restore_request_iff [of ?d 1] restore_request_iff [of ?a 1]
      restore_request_iff [of ?a 2] restore_request_iff [of ?l 1] d a l r
    by simp
qed

subsection \<open>Facts about the transactional writer\<close>

lemma bind_Inr_iff: "bind m f = Inr y \<longleftrightarrow> (\<exists>x. m = Inr x \<and> f x = Inr y)"
  by (cases m) simp_all

lemma bind_Inl_iff: "bind m f = Inl e \<longleftrightarrow> m = Inl e \<or> (\<exists>x. m = Inr x \<and> f x = Inl e)"
  by (cases m) simp_all

lemma subscript_Inr_iff: "subscript k v = Inr x \<longleftrightarrow> v = Some x"
  by (simp add: subscript_def split: option.splits)

lemma subscript_Inl_iff: "subscript k v = Inl e \<longleftrightarrow> v = None \<and> e = KeyError k"
  by (auto simp: subscript_def split: option.splits)

lemma request_tuple_status:
  "request_tuple d = Inr row \<Longrightarrow> pr_status row = get_default (rd_status d) (lit ''pending'')"
  by (auto simp: request_tuple_def bind_Inr_iff subscript_Inr_iff)

lemma items_to_insert_length:
  "items_to_insert i items = Inr rows \<Longrightarrow> length rows = length items"
  by (induction items arbitrary: rows) (auto simp: bind_Inr_iff)

lemma length_numbered [simp]: "length (numbered k rows) = length rows"
  by (induction rows arbitrary: k) simp_all

lemma insert_request_cases:
  "insert_request R st c row = (res, st') \<Longrightarrow>
     purchase_requests st' = purchase_requests st \<and> request_items st' = request_items st \<and>
     request_items_id_seq st' = request_items_id_seq st \<and>
     server_up st' = server_up st \<and>
     (case res of
        Inl e \<Rightarrow> True
      | Inr (i, c') \<Rightarrow>
          i = purchase_requests_id_seq st \<and> view_items c' = view_items c \<and>
          view_requests c' = view_requests c @ [row\<lparr>pr_id := i, pr_deleted_at := None\<rparr>])"
  by (auto simp: insert_request_def execute_cases Let_def split: if_splits option.splits)

lemma insert_item_cases:
  "insert_item R st c row = (res, st') \<Longrightarrow>
     purchase_requests st' = purchase_requests st \<and> request_items st' = request_items st \<and>
     server_up st' = server_up st \<and>
     (case res of
        Inl e \<Rightarrow> True
      | Inr c' \<Rightarrow>
          request_items_id_seq st' = request_items_id_seq st + 1 \<and>
          view_requests c' = view_requests c \<and>
          view_items c' = view_items c @ [row\<lparr>ri_id := request_items_id_seq st\<rparr>])"
  by (auto simp: insert_item_def execute_cases Let_def split: if_splits option.splits)

lemma executemany_cases:
  "executemany R st c rows = (res, st') \<Longrightarrow>
     purchase_requests st' = purchase_requests st \<and> request_items st' = request_items st \<and>
     server_up st' = server_up st \<and>
     (case res of
        Inl e \<Rightarrow> True
      | Inr c' \<Rightarrow>
          view_requests c' = view_requests c \<and>
          view_items c' = view_items c @ numbered (request_items_id_seq st) rows)"
proof (induction rows arbitrary: st c)
  case Nil
  then show ?case by auto
next
  case (Cons row rows)
  obtain r1 st1 where i: "insert_item R st c row = (r1, st1)" by (cases "insert_item R st c row")
  note f = insert_item_cases [OF i]
  show ?case
  proof (cases r1)
    case (Inl e)
    with Cons.prems i f show ?thesis by auto
  next
    case (Inr c1)
    with Cons.prems i have "executemany R st1 c1 rows = (res, st')" by simp
    from Cons.IH [OF this] f Inr show ?thesis
      by (auto split: sum.splits)
  qed
qed

lemma save_request_try_cases:
  assumes "save_request_try R st c d items = (res, st')"
  shows "case res of
           Inl e \<Rightarrow>
             purchase_requests st' = purchase_requests st \<and> request_items st' = request_items st \<and>
             server_up st' = server_up st
         | Inr i \<Rightarrow>
             i = purchase_requests_id_seq st \<and>
             (\<exists>row rows. request_tuple d = Inr row \<and> items_to_insert i items = Inr rows \<and>
                purchase_requests st' = view_requests c @ [row\<lparr>pr_id := i, pr_deleted_at := None\<rparr>] \<and>
                request_items st' = view_items c @ numbered (request_items_id_seq st) rows)"
proof (cases "request_tuple d")
  case (Inl e)
  with assms show ?thesis
    by (auto simp: save_request_try_def)
next
  case (Inr row)
  obtain r1 st1 where i: "insert_request R st c row = (r1, st1)"
    by (cases "insert_request R st c row")
  note f = insert_request_cases [OF i]
  show ?thesis
  proof (cases r1)
    case (Inl e)
    with assms Inr i f show ?thesis by (auto simp: save_request_try_def)
  next
    case r1: (Inr p)
    obtain i1 c1 where p: "p = (i1, c1)" by (cases p)
    show ?thesis
    proof (cases "items = []")
      case True
      with assms Inr i r1 p f show ?thesis
        by (auto simp: save_request_try_def commit_def)
    next
      case ne: False
      show ?thesis
      proof (cases "items_to_insert i1 items")
        case (Inl e)
        with assms Inr i r1 p f ne show ?thesis
          by (auto simp: save_request_try_def)
      next
        case rows: (Inr rows)
        obtain r2 st2 where e: "executemany R st1 c1 rows = (r2, st2)"
          by (cases "executemany R st1 c1 rows")
        note g = executemany_cases [OF e]
        show ?thesis
        proof (cases r2)
          case (Inl e)
          with assms Inr i r1 p f ne rows e g show ?thesis
            by (auto simp: save_request_try_def)
        next
          case (Inr c2)
          with assms \<open>request_tuple d = Inr row\<close> i r1 p f ne rows e g show ?thesis
            by (auto simp: save_request_try_def commit_def)
        qed
      qed
    qed
  qed
qed

lemma save_request_cases:
  assumes "save_request R st d items = (res, st')"
  shows "(\<exists>row rows. res = Inr (True, Some (purchase_requests_id_seq st), None) \<and>
            is_connected st \<and> pool_open st \<and>
            request_tuple d = Inr row \<and>
            items_to_insert (purchase_requests_id_seq st) items = Inr rows \<and>
            purchase_requests st' =
              purchase_requests st @
                [row\<lparr>pr_id := purchase_requests_id_seq st, pr_deleted_at := None\<rparr>] \<and>
            request_items st' = request_items st @ numbered (request_items_id_seq st) rows) \<or>
         (\<exists>m. res = Inr (False, None, Some m) \<and>
            purchase_requests st' = purchase_requests st \<and> request_items st' = request_items st) \<or>
         (\<exists>e. res = Inl e \<and> is_connected st \<and> pool_open st \<and>
            purchase_requests st' = purchase_requests st \<and> request_items st' = request_items st)"
proof (cases "is_connected st")
  case False
  with assms show ?thesis by (auto simp: save_request_def)
next
  case conn: True
  show ?thesis
  proof (cases "pool_open st")
    case False
    with assms conn show ?thesis
      by (auto simp: save_request_def get_connection_not_open)
  next
    case True
    let ?st0 = "serve st (the (connection_pool st))"
    obtain r1 st1 where t: "save_request_try R ?st0 (snapshot st) d items = (r1, st1)"
      by (cases "save_request_try R ?st0 (snapshot st) d items")
    note f = save_request_try_cases [OF t]
    show ?thesis
    proof (cases r1)
      case (Inr i)
      with assms conn True t f show ?thesis
        by (auto simp: save_request_def get_connection_open return_connection_def snapshot_def)
    next
      case (Inl e)
      with assms conn True t f show ?thesis
        by (cases e; cases "server_up st")
           (auto simp: save_request_def get_connection_open return_connection_def)
    qed
  qed
qed

subsection \<open>Atomicity of the writer\<close>

text \<open>
  Claim C1. For every storage rule set, state, request dictionary and item list,
  \<open>save_request\<close> either succeeds, and then the request table has gained exactly the request
  row and the item table exactly one row per item of the list, in order, or it does not
  succeed (a failure triple or an exception), and then both tables are what they were:
  in particular, when an item is refused after the request row was inserted, no row of the
  request is left.
\<close>

theorem save_request_atomic:
  "(fst (save_request R st d items) = Inr (True, Some i, None) \<longrightarrow>
      (\<exists>row rows. request_tuple d = Inr row \<and> items_to_insert i items = Inr rows \<and>
         length rows = length items \<and>
         purchase_requests (snd (save_request R st d items)) =
           purchase_requests st @ [row\<lparr>pr_id := i, pr_deleted_at := None\<rparr>] \<and>
         request_items (snd (save_request R st d items)) =
           request_items st @ numbered (request_items_id_seq st) rows)) \<and>
   ((\<forall>j. fst (save_request R st d items) \<noteq> Inr (True, Some j, None)) \<longrightarrow>
      purchase_requests (snd (save_request R st d items)) = purchase_requests st \<and>
      request_items (snd (save_request R st d items)) = request_items st)"
  using save_request_cases [OF surjective_pairing, of R st d items]
  by (auto dest: items_to_insert_length)

theorem save_request_atomic_witness:
  "fst (save_request no_rules (init fresh_storage) sample_data
          [sample_item 1 2, sample_item 2 5]) = Inr (True, Some 1, None) \<and>
   length (purchase_requests (snd (save_request no_rules (init fresh_storage) sample_data
          [sample_item 1 2, sample_item 2 5]))) = 1 \<and>
   length (request_items (snd (save_request no_rules (init fresh_storage) sample_data
          [sample_item 1 2, sample_item 2 5]))) = 2 \<and>
   fst (save_request positive_quantity (init fresh_storage) sample_data []) =
     Inr (True, Some 1, None) \<and>
   fst (save_request positive_quantity (init fresh_storage) sample_data
          [sample_item 1 2, sample_item 2 0]) =
     Inr (False, None, Some (SaveFailed ''quantity must be positive'')) \<and>
   purchase_requests (snd (save_request positive_quantity (init fresh_storage) sample_data
          [sample_item 1 2, sample_item 2 0])) = [] \<and>
   request_items (snd (save_request positive_quantity (init fresh_storage) sample_data
          [sample_item 1 2, sample_item 2 0])) = []"
proof -
  let ?ok = "save_request no_rules (init fresh_storage) sample_data
          [sample_item 1 2, sample_item 2 5]"
  let ?bad = "save_request positive_quantity (init fresh_storage) sample_data
          [sample_item 1 2, sample_item 2 0]"
  have ok: "fst ?ok = Inr (True, Some 1, None)" by code_simp
  have alone: "fst (save_request positive_quantity (init fresh_storage) sample_data []) =
     Inr (True, Some 1, None)" by code_simp
  have bad: "fst ?bad = Inr (False, None, Some (SaveFailed ''quantity must be positive''))"
    by code_simp
  then have nosuccess: "\<forall>j. fst ?bad \<noteq> Inr (True, Some j, None)" by simp
  from save_request_atomic [of no_rules "init fresh_storage" sample_data
      "[sample_item 1 2, sample_item 2 5]" 1] ok
  have "length (purchase_requests (snd ?ok)) = 1 \<and> length (request_items (snd ?ok)) = 2"
    by auto
  moreover from save_request_atomic [of positive_quantity "init fresh_storage" sample_data
      "[sample_item 1 2, sample_item 2 0]" 1] nosuccess
  have "purchase_requests (snd ?bad) = [] \<and> request_items (snd ?bad) = []"
    by simp
  ultimately show ?thesis using ok alone bad by simp
qed

subsection \<open>The status a request is saved with\<close>

text \<open>
  Claim C9. \<open>save_request\<close> does not validate the status. Whenever it succeeds, the row it
  has added carries the status of the dictionary as it is, and \<open>pending\<close> only where the
  key is absent; and on a connected manager with the server answering, a dictionary with
  all required keys and no items is saved exactly when the driver can send the texts of the
  row and the storage accepts it, whatever the status. The witness saves the status
  \<open>archived\<close>, which is not among the valid values.
\<close>

theorem save_request_status_verbatim:
  "(fst (save_request R st d items) = Inr (True, Some i, None) \<longrightarrow>
      (\<exists>r. purchase_requests (snd (save_request R st d items)) = purchase_requests st @ [r] \<and>
           pr_id r = i \<and>
           pr_status r = (case rd_status d of None \<Rightarrow> lit ''pending'' | Some s \<Rightarrow> s))) \<and>
   (is_connected st \<and> pool_open st \<and> server_up st \<and> request_tuple d = Inr row \<longrightarrow>
      (fst (save_request R st d []) = Inr (True, Some (purchase_requests_id_seq st), None) \<longleftrightarrow>
       list_all nul_free (request_texts row) \<and>
       request_rule R (purchase_requests st)
         (row\<lparr>pr_id := purchase_requests_id_seq st, pr_deleted_at := None\<rparr>) = None))"
proof -
  have 1: "\<exists>r. purchase_requests (snd (save_request R st d items)) = purchase_requests st @ [r] \<and>
           pr_id r = i \<and>
           pr_status r = (case rd_status d of None \<Rightarrow> lit ''pending'' | Some s \<Rightarrow> s)"
    if "fst (save_request R st d items) = Inr (True, Some i, None)"
    using save_request_cases [OF surjective_pairing, of R st d items] that
    by (auto dest!: request_tuple_status simp: get_default_def)
  have 2: "fst (save_request R st d []) = Inr (True, Some (purchase_requests_id_seq st), None) \<longleftrightarrow>
       list_all nul_free (request_texts row) \<and>
       request_rule R (purchase_requests st)
         (row\<lparr>pr_id := purchase_requests_id_seq st, pr_deleted_at := None\<rparr>) = None"
    if "is_connected st" "pool_open st" "server_up st" "request_tuple d = Inr row"
    using that
    by (cases "list_all nul_free (request_texts row)";
        cases "request_rule R (purchase_requests st)
         (row\<lparr>pr_id := purchase_requests_id_seq st, pr_deleted_at := None\<rparr>)")
       (simp_all add: save_request_def get_connection_open save_request_try_def
        insert_request_def execute_cases Let_def snapshot_def)
  from 1 2 show ?thesis by blast
qed

theorem save_request_status_verbatim_witness:
  "lit ''archived'' \<notin> set valid_statuses \<and>
   fst (save_request no_rules (init fresh_storage)
          (sample_data\<lparr>rd_status := Some (lit ''archived'')\<rparr>) [sample_item 1 2]) =
     Inr (True, Some 1, None) \<and>
   map pr_status (purchase_requests (snd (save_request no_rules (init fresh_storage)
          (sample_data\<lparr>rd_status := Some (lit ''archived'')\<rparr>) [sample_item 1 2]))) =
     [lit ''archived''] \<and>
   fst (save_request no_rules (init fresh_storage)
          (sample_data\<lparr>rd_status := Some (lit ''archived'')\<rparr>) []) = Inr (True, Some 1, None)"
proof -
  let ?a = "sample_data\<lparr>rd_status := Some (lit ''archived'')\<rparr>"
  let ?row = "sample_request\<lparr>pr_id := 0, pr_status := lit ''archived''\<rparr>"
  let ?st = "init fresh_storage"
  note inst = save_request_status_verbatim [of no_rules ?st ?a "[sample_item 1 2]" 1 ?row]
  have a: "fst (save_request no_rules ?st ?a [sample_item 1 2]) = Inr (True, Some 1, None)"
    by code_simp
  have s: "rd_status ?a = Some (lit ''archived'')"
    by simp
  have v: "lit ''archived'' \<notin> set valid_statuses"
    by (simp add: valid_statuses_def lit_def)
  have h: "is_connected ?st \<and> pool_open ?st \<and> server_up ?st \<and> request_tuple ?a = Inr ?row"
    by code_simp
  have k: "list_all nul_free (request_texts ?row) \<and>
      request_rule no_rules (purchase_requests ?st)
        (?row\<lparr>pr_id := purchase_requests_id_seq ?st, pr_deleted_at := None\<rparr>) = None"
    by code_simp
  have q: "purchase_requests_id_seq ?st = 1"
    by code_simp
  from inst a s obtain r where
    "purchase_requests (snd (save_request no_rules ?st ?a [sample_item 1 2])) = [r]"
    "pr_status r = lit ''archived''"
    by auto
  moreover from inst h k q have "fst (save_request no_rules ?st ?a []) = Inr (True, Some 1, None)"
    by simp
  ultimately show ?thesis using a v by simp
qed

subsection \<open>Exceptions that leave the writer\<close>

text \<open>
  Claim C2, evaluated on the code. The docstring of \<open>save_request\<close> promises the triple, but
  three exceptions leave the method on a connected manager: the \<open>KeyError\<close> of a request
  dictionary without \<^verbatim>\<open>request_number\<close>, which the handler \<^verbatim>\<open>except Error\<close> does not catch; the
  \<open>ValueError\<close> of the driver for a text that holds NUL, which it does not catch either;
  and, where the server was lost after the manager connected, the error of the rollback
  inside the handler itself.
\<close>

theorem save_request_raises:
  "fst (save_request no_rules (init fresh_storage)
          (sample_data\<lparr>rd_request_number := None\<rparr>) []) = Inl (KeyError ''request_number'') \<and>
   fst (save_request no_rules (init fresh_storage)
          (sample_data\<lparr>rd_requester_name := Some [65, 0, 66]\<rparr>) []) =
     Inl (ValueError nul_refused) \<and>
   fst (save_request no_rules (lost_since (init fresh_storage)) sample_data []) =
     Inl (DbError connection_closed)"
  by code_simp

subsection \<open>Statistics\<close>

lemma count_by_status:
  "length (filter (\<lambda>r. pr_deleted_at r = None) rows) =
     length (filter (\<lambda>r. pr_status r = lit ''pending'' \<and> pr_deleted_at r = None) rows) +
     length (filter (\<lambda>r. pr_status r = lit ''approved'' \<and> pr_deleted_at r = None) rows) +
     length (filter (\<lambda>r. pr_status r = lit ''rejected'' \<and> pr_deleted_at r = None) rows) +
     length (filter (\<lambda>r. pr_status r = lit ''completed'' \<and> pr_deleted_at r = None) rows) +
     length (filter (\<lambda>r. pr_status r \<notin> set valid_statuses \<and> pr_deleted_at r = None) rows)"
  by (induction rows) (auto simp: valid_statuses_def lit_def)

lemma active_total_split:
  "active_total st =
     active_with st (lit ''pending'') + active_with st (lit ''approved'') +
     active_with st (lit ''rejected'') + active_with st (lit ''completed'') +
     int (length (filter (\<lambda>r. pr_status r \<notin> set valid_statuses \<and> pr_deleted_at r = None)
            (purchase_requests st)))"
  unfolding active_total_def active_with_def
  by (subst count_by_status) simp

lemma get_statistics_cases:
  "fst (get_statistics st) =
     (if is_connected st \<and> pool_open st \<and> server_up st
      then \<lparr>s_total = active_total st, s_pending = active_with st (lit ''pending''),
            s_approved = active_with st (lit ''approved''),
            s_rejected = active_with st (lit ''rejected''),
            s_completed = active_with st (lit ''completed'')\<rparr>
      else zero_statistics)"
proof (cases "is_connected st \<and> pool_open st")
  case False
  then show ?thesis
    by (auto simp: get_statistics_def get_connection_not_open)
next
  case True
  then show ?thesis
    by (cases "server_up st")
       (simp_all add: get_statistics_def get_connection_open count_where_def snapshot_def
          active_total_def active_with_def)
qed

text \<open>
  Claim C4, as amended. On a connected manager whose storage answers, \<open>get_statistics\<close>
  returns the number of active requests as the total and, for each of the four statuses,
  the number of active requests in it; otherwise it returns zeros. In every state the four
  status counts add up to at most the total, and to exactly the total when every active
  request has one of the four statuses.
\<close>

theorem get_statistics_invariant:
  "(is_connected st \<and> pool_open st \<and> server_up st \<longrightarrow>
      s_total (fst (get_statistics st)) = active_total st \<and>
      s_pending (fst (get_statistics st)) = active_with st (lit ''pending'') \<and>
      s_approved (fst (get_statistics st)) = active_with st (lit ''approved'') \<and>
      s_rejected (fst (get_statistics st)) = active_with st (lit ''rejected'') \<and>
      s_completed (fst (get_statistics st)) = active_with st (lit ''completed'')) \<and>
   s_pending (fst (get_statistics st)) + s_approved (fst (get_statistics st)) +
     s_rejected (fst (get_statistics st)) + s_completed (fst (get_statistics st))
     \<le> s_total (fst (get_statistics st)) \<and>
   ((\<forall>r \<in> set (purchase_requests st).
       pr_deleted_at r = None \<longrightarrow> pr_status r \<in> set valid_statuses) \<longrightarrow>
      s_total (fst (get_statistics st)) =
        s_pending (fst (get_statistics st)) + s_approved (fst (get_statistics st)) +
        s_rejected (fst (get_statistics st)) + s_completed (fst (get_statistics st)))"
proof -
  have none: "filter (\<lambda>r. pr_status r \<notin> set valid_statuses \<and> pr_deleted_at r = None)
      (purchase_requests st) = []"
    if "\<forall>r \<in> set (purchase_requests st).
       pr_deleted_at r = None \<longrightarrow> pr_status r \<in> set valid_statuses"
    using that by (auto simp: filter_empty_conv)
  show ?thesis
    using active_total_split [of st] none
    by (auto simp: get_statistics_cases zero_statistics_def)
qed

theorem get_statistics_invariant_witness:
  "fst (get_statistics (sample_state
          [sample_request, sample_request\<lparr>pr_id := 2, pr_status := lit ''approved''\<rparr>,
           sample_request\<lparr>pr_id := 3, pr_status := lit ''rejected'', pr_deleted_at := Some 9\<rparr>]
          [])) =
     \<lparr>s_total = 2, s_pending = 1, s_approved = 1, s_rejected = 0, s_completed = 0\<rparr>"
proof -
  let ?st = "sample_state
          [sample_request, sample_request\<lparr>pr_id := 2, pr_status := lit ''approved''\<rparr>,
           sample_request\<lparr>pr_id := 3, pr_status := lit ''rejected'', pr_deleted_at := Some 9\<rparr>]
          []"
  have h: "is_connected ?st \<and> pool_open ?st \<and> server_up ?st"
    "\<forall>r \<in> set (purchase_requests ?st).
       pr_deleted_at r = None \<longrightarrow> pr_status r \<in> set valid_statuses"
    by (simp_all add: sample_request_def valid_statuses_def)
  have c: "active_total ?st = 2" "active_with ?st (lit ''pending'') = 1"
    "active_with ?st (lit ''approved'') = 1" "active_with ?st (lit ''rejected'') = 0"
    "active_with ?st (lit ''completed'') = 0"
    by (simp_all add: active_total_def active_with_def sample_request_def lit_def)
  from get_statistics_invariant [of ?st] h c
  have "s_total (fst (get_statistics ?st)) = 2 \<and> s_pending (fst (get_statistics ?st)) = 1 \<and>
    s_approved (fst (get_statistics ?st)) = 1 \<and> s_rejected (fst (get_statistics ?st)) = 0 \<and>
    s_completed (fst (get_statistics ?st)) = 0"
    by simp
  then show ?thesis
    by (cases "fst (get_statistics ?st)") simp
qed

text \<open>
  The claim as stated fails in a reachable state: on a fresh storage \<open>save_request\<close> accepts
  the status \<open>archived\<close>, and the statistics then count one active request and none in
  any of the four statuses.
\<close>

theorem get_statistics_counterexample:
  "fst (save_request no_rules (init fresh_storage)
          (sample_data\<lparr>rd_status := Some (lit ''archived'')\<rparr>) []) = Inr (True, Some 1, None) \<and>
   fst (get_statistics (snd (save_request no_rules (init fresh_storage)
          (sample_data\<lparr>rd_status := Some (lit ''archived'')\<rparr>) []))) =
     \<lparr>s_total = 1, s_pending = 0, s_approved = 0, s_rejected = 0, s_completed = 0\<rparr> \<and>
   s_total (fst (get_statistics (snd (save_request no_rules (init fresh_storage)
          (sample_data\<lparr>rd_status := Some (lit ''archived'')\<rparr>) [])))) \<noteq>
     s_pending (fst (get_statistics (snd (save_request no_rules (init fresh_storage)
          (sample_data\<lparr>rd_status := Some (lit ''archived'')\<rparr>) [])))) +
     s_approved (fst (get_statistics (snd (save_request no_rules (init fresh_storage)
          (sample_data\<lparr>rd_status := Some (lit ''archived'')\<rparr>) [])))) +
     s_rejected (fst (get_statistics (snd (save_request no_rules (init fresh_storage)
          (sample_data\<lparr>rd_status := Some (lit ''archived'')\<rparr>) [])))) +
     s_completed (fst (get_statistics (snd (save_request no_rules (init fresh_storage)
          (sample_data\<lparr>rd_status := Some (lit ''archived'')\<rparr>) []))))"
  by code_simp

subsection \<open>Lookups and soft deletion\<close>

lemma filter_key_distinct:
  "distinct (map f xs) \<Longrightarrow> x \<in> set xs \<Longrightarrow> filter (\<lambda>y. f y = f x) xs = [x]"
proof (induction xs)
  case Nil
  then show ?case by simp
next
  case (Cons a xs)
  show ?case
  proof (cases "a = x")
    case True
    with Cons.prems have "f x \<notin> f ` set xs" by simp
    then have "\<forall>y \<in> set xs. f y \<noteq> f x" by (metis imageI)
    then have "filter (\<lambda>y. f y = f x) xs = []" by (simp add: filter_empty_conv)
    with True show ?thesis by simp
  next
    case False
    with Cons.prems have "x \<in> set xs" "f a \<noteq> f x" by auto
    with Cons show ?thesis by simp
  qed
qed

lemma fetchone_filter:
  "x \<in> set xs \<Longrightarrow> P x \<Longrightarrow> \<exists>y. fetchone (filter P xs) = Some y \<and> P y \<and> y \<in> set xs"
proof -
  assume "x \<in> set xs" "P x"
  then have "filter P xs \<noteq> []" by (auto simp: filter_empty_conv)
  then obtain y ys where e: "filter P xs = y # ys" by (cases "filter P xs") auto
  then have "y \<in> set (filter P xs)" by simp
  then have "P y" "y \<in> set xs" by simp_all
  with e show ?thesis by (simp add: fetchone_def)
qed

lemma set_items_query:
  "set (items_query lower c pat) =
     {item_hit r i | r i. r \<in> set (view_requests c) \<and> i \<in> set (view_items c) \<and>
        pr_id r = ri_request_id i \<and>
        (ilike lower pat (ri_description i) \<or> ilike lower pat (ri_notes i))}"
  by (auto simp: items_query_def)

lemma item_hit_in_query:
  "r \<in> set (view_requests c) \<Longrightarrow> i \<in> set (view_items c) \<Longrightarrow> pr_id r = ri_request_id i \<Longrightarrow>
   ilike lower pat (ri_description i) \<or> ilike lower pat (ri_notes i) \<Longrightarrow>
   item_hit r i \<in> set (items_query lower c pat)"
  unfolding set_items_query by blast

lemma set_requests_query:
  "set (requests_query c conds) =
     (\<lambda>r. (r, int (length (filter (\<lambda>i. pr_id r = ri_request_id i) (view_items c))))) `
       {r \<in> set (view_requests c). \<forall>cond \<in> set conds. cond r}"
  by (auto simp: requests_query_def list_all_iff)

lemma where_clause_active:
  "(\<forall>cond \<in> set (where_clause lower fs False). cond r) \<Longrightarrow> pr_deleted_at r = None"
  by (simp add: where_clause_def)

lemma nul_free_search_pattern [simp]: "nul_free (search_pattern t) = nul_free t"
  by (simp add: search_pattern_def nul_free_def percent_def)

lemma search_requests_cases:
  "is_connected st \<Longrightarrow> pool_open st \<Longrightarrow> server_up st \<Longrightarrow>
     fst (search_requests lower st fs include_deleted) =
       (if sendable fs
        then Inr (requests_query (snapshot st) (where_clause lower fs include_deleted))
        else Inl (ValueError nul_refused))"
  by (simp add: search_requests_def get_connection_open return_connection_def execute_cases
      sendable_def)

text \<open>
  Claim C10, as amended. The point lookups and the item search do not test the soft-delete
  timestamp. On a connected manager whose storage answers, for every soft-deleted request
  of the table (ids being the table's key): \<open>get_request_by_id\<close> on its id returns it with
  its items in row-number order; \<open>get_request_by_number\<close> on its number returns one row with
  that number, the request itself when no other row carries the number; \<open>search_in_items\<close>
  for a text the driver can send returns the hit of every item of it whose description or
  notes match; and \<open>search_requests\<close> without \<open>include_deleted\<close> does not return it.
\<close>

theorem lookups_ignore_soft_delete:
  assumes "is_connected st" "pool_open st" "server_up st"
    and "distinct (map pr_id (purchase_requests st))"
    and "r \<in> set (purchase_requests st)" "pr_deleted_at r \<noteq> None"
  shows "fst (get_request_by_id st (pr_id r)) =
           Some (r, sort_key ri_row_number
                      (filter (\<lambda>i. ri_request_id i = pr_id r) (request_items st))) \<and>
         (\<exists>r'. fst (get_request_by_number st (pr_request_number r)) = Some r' \<and>
               pr_request_number r' = pr_request_number r \<and>
               ((\<forall>q \<in> set (purchase_requests st).
                   pr_request_number q = pr_request_number r \<longrightarrow> q = r) \<longrightarrow> r' = r)) \<and>
         (\<forall>i \<in> set (request_items st).
             nul_free search_text \<and> ri_request_id i = pr_id r \<and>
             (ilike lower (search_pattern search_text) (ri_description i) \<or>
              ilike lower (search_pattern search_text) (ri_notes i)) \<longrightarrow>
             (\<exists>hits. fst (search_in_items lower st search_text) = (Some hits, None) \<and>
                     item_hit r i \<in> set hits)) \<and>
         (\<forall>rows. fst (search_requests lower st fs False) = Inr rows \<longrightarrow> r \<notin> fst ` set rows)"
proof -
  from assms(4,5) have "filter (\<lambda>y. pr_id y = pr_id r) (purchase_requests st) = [r]"
    by (rule filter_key_distinct)
  with assms(1-3) have by_id: "fst (get_request_by_id st (pr_id r)) =
           Some (r, sort_key ri_row_number
                      (filter (\<lambda>i. ri_request_id i = pr_id r) (request_items st)))"
    by (simp add: get_request_by_id_def get_connection_open snapshot_def fetchone_def
        return_connection_def)
  from fetchone_filter [OF assms(5), of "\<lambda>y. pr_request_number y = pr_request_number r"]
  obtain r' where r': "fetchone (filter (\<lambda>y. pr_request_number y = pr_request_number r)
      (purchase_requests st)) = Some r'" "pr_request_number r' = pr_request_number r"
      "r' \<in> set (purchase_requests st)"
    by auto
  with assms(1-3) have "fst (get_request_by_number st (pr_request_number r)) = Some r'"
    by (simp add: get_request_by_number_def get_connection_open snapshot_def
        return_connection_def)
  with r' have by_number: "\<exists>r'. fst (get_request_by_number st (pr_request_number r)) = Some r' \<and>
               pr_request_number r' = pr_request_number r \<and>
               ((\<forall>q \<in> set (purchase_requests st).
                   pr_request_number q = pr_request_number r \<longrightarrow> q = r) \<longrightarrow> r' = r)"
    by auto
  have items: "fst (search_in_items lower st search_text) =
      (Some (items_query lower (snapshot st) (search_pattern search_text)), None)"
    if "nul_free search_text"
    using assms(1-3) that
    by (simp add: search_in_items_def pool_getconn_open return_connection_def execute_up)
  have in_items: "\<forall>i \<in> set (request_items st).
             nul_free search_text \<and> ri_request_id i = pr_id r \<and>
             (ilike lower (search_pattern search_text) (ri_description i) \<or>
              ilike lower (search_pattern search_text) (ri_notes i)) \<longrightarrow>
             (\<exists>hits. fst (search_in_items lower st search_text) = (Some hits, None) \<and>
                     item_hit r i \<in> set hits)"
    using assms(5) items
    by (auto intro!: item_hit_in_query simp: snapshot_def)
  from assms(6) have excluded:
    "\<forall>rows. fst (search_requests lower st fs False) = Inr rows \<longrightarrow> r \<notin> fst ` set rows"
    by (auto simp: search_requests_cases [OF assms(1-3)] set_requests_query
        dest: where_clause_active split: if_splits)
  from by_id by_number in_items excluded show ?thesis by simp
qed

theorem lookups_ignore_soft_delete_witness:
  "fst (get_request_by_id
          (sample_state [sample_request\<lparr>pr_deleted_at := Some 5\<rparr>] [sample_item_row]) 1) =
     Some (sample_request\<lparr>pr_deleted_at := Some 5\<rparr>, [sample_item_row]) \<and>
   fst (get_request_by_number
          (sample_state [sample_request\<lparr>pr_deleted_at := Some 5\<rparr>] [sample_item_row]) 1001) =
     Some (sample_request\<lparr>pr_deleted_at := Some 5\<rparr>) \<and>
   (\<exists>hits. fst (search_in_items ascii_lower
                 (sample_state [sample_request\<lparr>pr_deleted_at := Some 5\<rparr>] [sample_item_row])
                 (lit ''BOLT'')) = (Some hits, None) \<and>
           item_hit (sample_request\<lparr>pr_deleted_at := Some 5\<rparr>) sample_item_row \<in> set hits) \<and>
   fst (search_requests ascii_lower
          (sample_state [sample_request\<lparr>pr_deleted_at := Some 5\<rparr>] [sample_item_row])
          None False) = Inr []"
proof -
  let ?r = "sample_request\<lparr>pr_deleted_at := Some 5\<rparr>"
  let ?st = "sample_state [?r] [sample_item_row]"
  have h: "is_connected ?st" "pool_open ?st" "server_up ?st"
    "distinct (map pr_id (purchase_requests ?st))"
    "?r \<in> set (purchase_requests ?st)" "pr_deleted_at ?r \<noteq> None"
    by simp_all
  have k: "pr_id ?r = 1" "pr_request_number ?r = 1001"
    by (simp_all add: sample_request_def)
  have m: "ri_request_id sample_item_row = 1" "nul_free (lit ''BOLT'')"
    "ilike ascii_lower (search_pattern (lit ''BOLT'')) (ri_description sample_item_row)"
    by code_simp+
  have e: "fst (search_requests ascii_lower ?st None False) = Inr []"
    by code_simp
  from lookups_ignore_soft_delete [OF h, of "lit ''BOLT''" ascii_lower None] k m e
  show ?thesis by (simp add: sample_item_row_def)
qed

text \<open>
  The claim as stated fails for the lookup by number, which fetches one row: of two
  soft-deleted requests with one number it returns the one the storage yields first,
  whichever the order of the two, and not the other; and where an active request has taken
  the number of a soft-deleted one and comes first, it returns the active one.
\<close>

theorem get_request_by_number_counterexample:
  "fst (get_request_by_number
          (sample_state [sample_request\<lparr>pr_deleted_at := Some 5\<rparr>,
                         sample_request\<lparr>pr_id := 2, pr_deleted_at := Some 6\<rparr>] []) 1001) =
     Some (sample_request\<lparr>pr_deleted_at := Some 5\<rparr>) \<and>
   fst (get_request_by_number
          (sample_state [sample_request\<lparr>pr_id := 2, pr_deleted_at := Some 6\<rparr>,
                         sample_request\<lparr>pr_deleted_at := Some 5\<rparr>] []) 1001) =
     Some (sample_request\<lparr>pr_id := 2, pr_deleted_at := Some 6\<rparr>) \<and>
   sample_request\<lparr>pr_deleted_at := Some 5\<rparr> \<noteq> sample_request\<lparr>pr_id := 2, pr_deleted_at := Some 6\<rparr> \<and>
   pr_request_number (sample_request\<lparr>pr_id := 2, pr_deleted_at := Some 6\<rparr>) = 1001 \<and>
   pr_request_number (sample_request\<lparr>pr_deleted_at := Some 5\<rparr>) = 1001 \<and>
   fst (get_request_by_number
          (sample_state [sample_request\<lparr>pr_id := 3\<rparr>,
                         sample_request\<lparr>pr_deleted_at := Some 5\<rparr>] []) 1001) =
     Some (sample_request\<lparr>pr_id := 3\<rparr>)"
  by code_simp

subsection \<open>Pattern matching\<close>

lemma starts_with_iff: "starts_with s v \<longleftrightarrow> (\<exists>w. s = v @ w)"
  by (induction s v rule: starts_with.induct) auto

lemma occurs_in_iff: "occurs_in v s \<longleftrightarrow> (\<exists>u w. s = u @ v @ w)"
proof (induction s)
  case Nil
  then show ?case by auto
next
  case (Cons c s)
  show ?case
  proof
    assume "occurs_in v (c # s)"
    then consider "starts_with (c # s) v" | "occurs_in v s" by auto
    then show "\<exists>u w. c # s = u @ v @ w"
    proof cases
      case 1
      then obtain w where "c # s = v @ w" by (auto simp: starts_with_iff)
      then have "c # s = [] @ v @ w" by simp
      then show ?thesis by blast
    next
      case 2
      with Cons obtain u w where "s = u @ v @ w" by auto
      then have "c # s = (c # u) @ v @ w" by simp
      then show ?thesis by blast
    qed
  next
    assume "\<exists>u w. c # s = u @ v @ w"
    then obtain u w where e: "c # s = u @ v @ w" by auto
    show "occurs_in v (c # s)"
    proof (cases u)
      case Nil
      with e have "starts_with (c # s) v" by (auto simp: starts_with_iff)
      then show ?thesis by simp
    next
      case (Cons a u')
      with e have "s = u' @ v @ w" by simp
      with Cons.IH have "occurs_in v s" by blast
      then show ?thesis by simp
    qed
  qed
qed

lemma like_percent: "like (percent # ps) s \<longleftrightarrow> (\<exists>u v. s = u @ v \<and> like ps v)"
proof (induction s)
  case Nil
  then show ?case by simp
next
  case (Cons c s)
  have "like (percent # ps) (c # s) \<longleftrightarrow> like ps (c # s) \<or> like (percent # ps) s"
    by simp
  also have "\<dots> \<longleftrightarrow> like ps (c # s) \<or> (\<exists>u v. s = u @ v \<and> like ps v)"
    using Cons by simp
  also have "\<dots> \<longleftrightarrow> (\<exists>u v. c # s = u @ v \<and> like ps v)"
  proof
    assume "like ps (c # s) \<or> (\<exists>u v. s = u @ v \<and> like ps v)"
    then show "\<exists>u v. c # s = u @ v \<and> like ps v"
    proof
      assume "like ps (c # s)"
      then have "c # s = [] @ (c # s) \<and> like ps (c # s)" by simp
      then show ?thesis by blast
    next
      assume "\<exists>u v. s = u @ v \<and> like ps v"
      then obtain u v where "s = u @ v" "like ps v" by auto
      then have "c # s = (c # u) @ v \<and> like ps v" by simp
      then show ?thesis by blast
    qed
  next
    assume "\<exists>u v. c # s = u @ v \<and> like ps v"
    then obtain u v where e: "c # s = u @ v" "like ps v" by auto
    show "like ps (c # s) \<or> (\<exists>u v. s = u @ v \<and> like ps v)"
    proof (cases u)
      case Nil
      with e show ?thesis by simp
    next
      case (Cons a u')
      with e have "s = u' @ v" by simp
      with e(2) show ?thesis by blast
    qed
  qed
  finally show ?case .
qed

lemma like_literal:
  "wildcard_free t \<Longrightarrow> like (t @ ps) s \<longleftrightarrow> (\<exists>r. s = t @ r \<and> like ps r)"
proof (induction t arbitrary: s)
  case Nil
  then show ?case by simp
next
  case (Cons a t)
  then have a: "a \<noteq> percent" "a \<noteq> underscore" "a \<noteq> backslash" and t: "wildcard_free t"
    by (simp_all add: wildcard_free_def)
  show ?case
  proof (cases s)
    case Nil
    with a show ?thesis by simp
  next
    case (Cons c s')
    with a Cons.IH [OF t, of s'] show ?thesis by auto
  qed
qed

lemma like_percent_only: "like [percent] s"
  by (induction s) simp_all

lemma like_contains:
  "wildcard_free t \<Longrightarrow> like (percent # t @ [percent]) s \<longleftrightarrow> (\<exists>u w. s = u @ t @ w)"
proof -
  assume t: "wildcard_free t"
  have "like (percent # t @ [percent]) s \<longleftrightarrow> (\<exists>u v. s = u @ v \<and> like (t @ [percent]) v)"
    by (rule like_percent)
  also have "\<dots> \<longleftrightarrow> (\<exists>u v. s = u @ v \<and> (\<exists>r. v = t @ r \<and> like [percent] r))"
    using like_literal [OF t] by simp
  also have "\<dots> \<longleftrightarrow> (\<exists>u w. s = u @ t @ w)"
    using like_percent_only by auto
  finally show ?thesis .
qed

lemma wildcard_free_lower:
  "keeps_operators lower \<Longrightarrow> wildcard_free (map lower t) = wildcard_free t"
  by (induction t) (simp_all add: wildcard_free_def keeps_operators_def)

lemma lower_percent: "keeps_operators lower \<Longrightarrow> lower percent = percent"
  by (simp add: keeps_operators_def)

lemma ilike_substring:
  "keeps_operators lower \<Longrightarrow> wildcard_free t \<Longrightarrow>
     ilike lower (search_pattern t) s = substring_ci lower t s"
  using like_contains [of "map lower t" "map lower s"]
  by (simp add: ilike_def search_pattern_def substring_ci_def occurs_in_iff lower_percent
      wildcard_free_lower)

lemma keeps_operators_ascii: "keeps_operators ascii_lower"
  by (auto simp: keeps_operators_def ascii_lower_def percent_def underscore_def backslash_def)

lemma keeps_operators_latin1: "keeps_operators latin1_lower"
  by (auto simp: keeps_operators_def latin1_lower_def percent_def underscore_def backslash_def)

subsection \<open>Search over requests\<close>

lemma clause_given:
  "(\<forall>cond \<in> set (clause v nonempty c). cond r) \<longleftrightarrow> given v nonempty (\<lambda>x. c x r)"
  by (simp add: clause_def given_def split: option.splits)

lemma where_clause_pattern:
  "(\<forall>cond \<in> set (where_clause lower fs include_deleted). cond r) \<longleftrightarrow>
     pattern_selects lower fs include_deleted r"
  by (cases fs) (auto simp: where_clause_def pattern_selects_def ball_Un clause_given)

lemma given_truthy_int:
  "v \<noteq> Some 0 \<Longrightarrow> given v truthy_int cond = given v (\<lambda>_. True) cond"
  by (auto simp: given_def truthy_int_def split: option.splits)

lemma pattern_selects_spec:
  assumes "keeps_operators lower" "plain_text fs" "nonzero_numbers fs"
  shows "pattern_selects lower fs include_deleted r = spec_selects lower fs include_deleted r"
proof (cases fs)
  case None
  then show ?thesis by (simp add: pattern_selects_def spec_selects_def)
next
  case (Some f)
  with assms(1,2) have n: "given (f_requester_name f) truthy_str
        (\<lambda>v. ilike lower (search_pattern v) (pr_requester_name r)) =
      given (f_requester_name f) truthy_str (\<lambda>v. substring_ci lower v (pr_requester_name r))"
    and u: "given (f_requesting_unit f) truthy_str
        (\<lambda>v. ilike lower (search_pattern v) (pr_requesting_unit r)) =
      given (f_requesting_unit f) truthy_str (\<lambda>v. substring_ci lower v (pr_requesting_unit r))"
    by (auto simp: plain_text_def given_def ilike_substring split: option.splits)
  from Some assms(3) have z: "f_request_number f \<noteq> Some 0" "f_year f \<noteq> Some 0"
    "f_month f \<noteq> Some 0"
    by (simp_all add: nonzero_numbers_def)
  from Some show ?thesis
    by (simp add: pattern_selects_def spec_selects_def n u z given_truthy_int)
qed

lemma requests_query_mset:
  "image_mset fst (mset (requests_query c conds)) =
     filter_mset (\<lambda>r. \<forall>cond \<in> set conds. cond r) (mset (view_requests c))"
  by (simp add: requests_query_def list_all_iff image_mset.compositionality comp_def)

lemma requests_query_sorted:
  "sorted_wrt (\<lambda>a b. pr_request_number (fst b) \<le> pr_request_number (fst a))
     (requests_query c conds)"
proof -
  have "sorted (map (\<lambda>(r, n). - pr_request_number r) (requests_query c conds))"
    unfolding requests_query_def by (rule sorted_sort_key)
  then show ?thesis
    by (simp add: sorted_map case_prod_unfold)
qed

text \<open>
  Claim C7, as amended. On a connected manager whose storage answers, and for filter texts
  the driver can send, \<open>search_requests\<close> returns exactly the requests that pass the
  filters present and true in Python's sense (a text other than the empty one, a number
  other than zero, any date), each once: request number exact; requester name and
  requesting unit as the case-insensitive \<^verbatim>\<open>LIKE\<close> pattern made of the text between two
  percent signs; year, month, status exact; Gregorian date range inclusive; soft-deleted
  rows only with \<open>include_deleted\<close>. Every returned request carries the number of its
  items, and the result is ordered by request number descending. Where the two name texts
  hold no percent sign, underscore or backslash and no number filter is zero, this is the
  selection of the specification, with the names matched as case-insensitive substrings.
\<close>

theorem search_requests_selects:
  assumes "is_connected st" "pool_open st" "server_up st" and "sendable fs"
  shows "\<exists>rows. fst (search_requests lower st fs include_deleted) = Inr rows \<and>
           mset (map fst rows) =
             filter_mset (pattern_selects lower fs include_deleted) (mset (purchase_requests st)) \<and>
           (\<forall>(r, n) \<in> set rows. n = items_of st r) \<and>
           sorted_wrt (\<lambda>a b. pr_request_number (fst b) \<le> pr_request_number (fst a)) rows \<and>
           (keeps_operators lower \<and> plain_text fs \<and> nonzero_numbers fs \<longrightarrow>
              mset (map fst rows) =
                filter_mset (spec_selects lower fs include_deleted)
                  (mset (purchase_requests st)))"
proof -
  let ?rows = "requests_query (snapshot st) (where_clause lower fs include_deleted)"
  from assms have e: "fst (search_requests lower st fs include_deleted) = Inr ?rows"
    by (simp add: search_requests_cases)
  have m: "mset (map fst ?rows) =
      filter_mset (pattern_selects lower fs include_deleted) (mset (purchase_requests st))"
    by (simp add: requests_query_mset snapshot_def where_clause_pattern)
  have c: "\<forall>(r, n) \<in> set ?rows. n = items_of st r"
    by (auto simp: set_requests_query items_of_def snapshot_def
        intro!: arg_cong [where f = length] filter_cong)
  have s: "mset (map fst ?rows) =
      filter_mset (spec_selects lower fs include_deleted) (mset (purchase_requests st))"
    if "keeps_operators lower" "plain_text fs" "nonzero_numbers fs"
    unfolding m using pattern_selects_spec [OF that] by presburger
  from e m c s requests_query_sorted show ?thesis
    by blast
qed

theorem search_requests_selects_witness:
  "fst (search_requests latin1_lower (sample_state name_samples [sample_item_row])
          (Some (no_filters\<lparr>f_requester_name := Some [233]\<rparr>)) False) =
     Inr [(named 2 1002 [76, 89, 67, 201, 69], 0), (named 1 1001 [201, 99, 111, 108, 101], 1)] \<and>
   mset (map fst
          [(named 2 1002 [76, 89, 67, 201, 69], 0::int),
           (named 1 1001 [201, 99, 111, 108, 101], 1::int)]) =
     filter_mset
       (spec_selects latin1_lower (Some (no_filters\<lparr>f_requester_name := Some [233]\<rparr>)) False)
       (mset (purchase_requests (sample_state name_samples [sample_item_row])))"
proof -
  let ?st = "sample_state name_samples [sample_item_row]"
  let ?fs = "Some (no_filters\<lparr>f_requester_name := Some [233]\<rparr>)"
  let ?res = "[(named 2 1002 [76, 89, 67, 201, 69], 0::int),
               (named 1 1001 [201, 99, 111, 108, 101], 1)]"
  have h: "is_connected ?st" "pool_open ?st" "server_up ?st"
    by simp_all
  have p: "sendable ?fs" "plain_text ?fs" "nonzero_numbers ?fs"
    by code_simp+
  have v: "fst (search_requests latin1_lower ?st ?fs False) = Inr ?res"
    by code_simp
  from search_requests_selects [OF h p(1), of latin1_lower False]
  obtain rows where r: "fst (search_requests latin1_lower ?st ?fs False) = Inr rows"
    and s: "keeps_operators latin1_lower \<and> plain_text ?fs \<and> nonzero_numbers ?fs \<longrightarrow>
      mset (map fst rows) =
        filter_mset (spec_selects latin1_lower ?fs False) (mset (purchase_requests ?st))"
    by blast
  from r v have e: "rows = ?res"
    by simp
  have c: "keeps_operators latin1_lower \<and> plain_text ?fs \<and> nonzero_numbers ?fs"
    using keeps_operators_latin1 p(2,3) by (intro conjI)
  note m = mp [OF s c]
  from v m [unfolded e] show ?thesis
    by (rule conjI)
qed

text \<open>
  The claim as stated fails in three ways. A name filter that holds a \<^verbatim>\<open>LIKE\<close> operator is
  no substring test: the source puts the text between two percent signs without escaping
  it, so the filter made of one underscore matches the name \<^verbatim>\<open>Ali\<close>. A number filter of zero
  is present and yet not applied: the filter \<^verbatim>\<open>year = 0\<close> returns the request of the year
  1403. And a filter text that holds NUL makes the method raise \<open>ValueError\<close>.
\<close>

theorem search_requests_counterexample:
  "fst (search_requests ascii_lower (sample_state [sample_request] [])
          (Some (no_filters\<lparr>f_requester_name := Some [underscore]\<rparr>)) False) =
     Inr [(sample_request, 0)] \<and>
   \<not> substring_ci ascii_lower [underscore] (pr_requester_name sample_request) \<and>
   \<not> spec_selects ascii_lower (Some (no_filters\<lparr>f_requester_name := Some [underscore]\<rparr>)) False
       sample_request \<and>
   fst (search_requests ascii_lower (sample_state [sample_request] [])
          (Some (no_filters\<lparr>f_year := Some 0\<rparr>)) False) = Inr [(sample_request, 0)] \<and>
   pr_year sample_request = 1403 \<and>
   \<not> spec_selects ascii_lower (Some (no_filters\<lparr>f_year := Some 0\<rparr>)) False sample_request \<and>
   fst (search_requests ascii_lower (sample_state [sample_request] [])
          (Some (no_filters\<lparr>f_status := Some [112, 0]\<rparr>)) False) = Inl (ValueError nul_refused)"
  by code_simp

end
